theory Spec2Isabelle
  imports Main "HOL-Library.Word"
begin

section \<open>Data model of cmd/stayrtr/stayrtr.go\<close>

text \<open>
  The file embeds the refresh pipeline of the StayRTR server: \<open>processData\<close>,
  \<open>updateFromNewState\<close>, \<open>updateFile\<close>, \<open>updateSlurm\<close>, \<open>routineUpdate\<close>, the
  export handler, the SSH public-key callback and the argument check of \<open>run\<close>.
  Log lines are left out; every other effect of these functions is a field of the
  state below. The packages \<open>prefixfile\<close>, \<open>rtr\<close> and \<open>utils\<close> are not part of the
  modelled file: what the code calls from them is a field of the record \<open>env\<close>, and
  every theorem holds for each choice of these fields unless it says otherwise.
\<close>

type_synonym byte = "8 word"

text \<open>A \<open>time.Time\<close>: nanoseconds since the zero time (January 1, year 1, UTC).\<close>

type_synonym time = int

text \<open>
  The error values the code tells apart in its type switches, and \<open>ErrorString\<close> for
  every other error (\<open>errors.New\<close>, a failed fetch, a failed decode).
\<close>

datatype error =
    IdenticalFile string
  | HttpNotModified string
  | IdenticalEtag string
  | ErrorString string

text \<open>\<open>net.IPNet\<close>: an address and a mask, both byte slices.\<close>

record IPNet =
  IP :: "byte list"
  Mask :: "byte list"

text \<open>
  \<open>prefixfile.VRPJson\<close>, one entry of the upstream document. The code reads the
  field \<open>Length\<close> and calls the methods \<open>GetPrefix2\<close> and \<open>GetASN2\<close>; the other two
  fields hold the JSON values of the keys \<open>prefix\<close> and \<open>asn\<close>, the latter either
  text or a number.
\<close>

datatype asn_value = AsnText string | AsnNumber nat

record VRPJson =
  json_prefix :: string
  json_asn :: asn_value
  Length :: byte

text \<open>\<open>rtr.VRP\<close>, as \<open>processData\<close> fills it.\<close>

record VRP =
  Prefix :: IPNet
  ASN :: "32 word"
  MaxLen :: byte

text \<open>
  \<open>prefixfile.MetaData\<close> and \<open>prefixfile.VRPList\<close>. \<open>Data\<close> is a slice that the code
  compares with \<open>nil\<close>: \<open>None\<close> is the nil slice, \<open>Some []\<close> an empty one.
\<close>

record MetaData =
  Counts :: int
  Buildtime :: string

record VRPList =
  Metadata :: MetaData
  Data :: "VRPJson list option"

text \<open>
  The Prometheus collectors the code writes, package-level variables in the source.
  A gauge holds the integer the code converts with \<open>float64\<close>; a label set that was
  never written is \<open>None\<close>. The counter is keyed by path and status code.
\<close>

record collectors =
  NumberOfVRPs :: "string \<times> string \<times> string \<rightharpoonup> int"
  LastRefresh :: "string \<rightharpoonup> int"
  LastChange :: "string \<rightharpoonup> int"
  RefreshStatusCode :: "string \<times> int \<Rightarrow> nat"

text \<open>
  The struct \<open>state\<close>. \<open>server\<close> is the \<open>rtr.Server\<close> behind the pointer, \<open>slurm\<close> and
  \<open>metricsEvent\<close> are pointers that may be nil, \<open>lasthash\<close> a slice that may be nil.
  \<open>fetchConfig\<close> is represented by the results of its \<open>FetchFile\<close> calls, which
  the functions below take as arguments; \<open>lockJson\<close> guards \<open>exported\<close> and has no
  sequential content. The last field holds the package-level collectors.
\<close>

record ('srv, 'slurm) state =
  lastdata :: VRPList
  lasthash :: "byte list option"
  lastchange :: time
  lastts :: time
  sendNotifs :: bool
  useSerial :: int
  server :: 'srv
  metricsEvent :: "unit option"
  exported :: VRPList
  slurm :: "'slurm option"
  checktime :: bool
  prom :: collectors

text \<open>
  What the code calls outside the modelled file: the methods of \<open>prefixfile.VRPJson\<close>
  and \<open>prefixfile.SlurmConfig\<close>, the methods of \<open>rtr.Server\<close> (as functions on the
  server's state), \<open>net.IPNet.String\<close>, \<open>time.Parse\<close> with the layout RFC3339,
  \<open>sha256.Sum256\<close>, the JSON decoders, and the flag \<open>-cache\<close>.
\<close>

record ('srv, 'slurm) env =
  GetPrefix2 :: "VRPJson \<Rightarrow> error + IPNet"
  GetASN2 :: "VRPJson \<Rightarrow> error + 32 word"
  IPNet_String :: "IPNet \<Rightarrow> string"
  time_Parse :: "string \<Rightarrow> error + time"
  FilterOnVRPs :: "'slurm \<Rightarrow> VRPJson list \<Rightarrow> VRPJson list \<times> VRPJson list"
  AssertVRPs :: "'slurm \<Rightarrow> VRPJson list"
  AddVRPs :: "VRP list \<Rightarrow> 'srv \<Rightarrow> 'srv"
  NotifyClientsLatest :: "'srv \<Rightarrow> 'srv"
  Sum256 :: "byte list \<Rightarrow> byte list"
  json_Decode :: "byte list \<Rightarrow> VRPList \<times> error option"
  DecodeJSONSlurm :: "byte list \<Rightarrow> error + 'slurm"
  CacheBin :: string

section \<open>The standard library functions the code calls\<close>

text \<open>
  \<open>net.IPMask.Size\<close>: the number of leading ones and the total number of bits of
  the mask; \<open>(0, 0)\<close> when the mask is not ones followed by zeros.
\<close>

definition byte_bits :: "byte \<Rightarrow> bool list" where
  "byte_bits b = map (bit b) [7, 6, 5, 4, 3, 2, 1, 0]"

definition mask_bits :: "byte list \<Rightarrow> bool list" where
  "mask_bits m = concat (map byte_bits m)"

definition Size :: "byte list \<Rightarrow> int \<times> int" where
  "Size m =
     (if list_all Not (dropWhile id (mask_bits m))
      then (int (length (takeWhile id (mask_bits m))), int (length m) * 8)
      else (0, 0))"

text \<open>
  \<open>net.IP.To4\<close>: a 4-byte address is returned as it is, a 16-byte address that is an
  IPv4-mapped one gives its last four bytes, anything else nil. \<open>net.IP.To16\<close>: a
  4-byte address gives its IPv4-mapped form, a 16-byte address is returned as it is,
  anything else nil.
\<close>

definition To4 :: "byte list \<Rightarrow> byte list option" where
  "To4 ip =
     (if length ip = 4 then Some ip
      else if length ip = 16 \<and> take 10 ip = replicate 10 0 \<and> ip ! 10 = 0xff \<and> ip ! 11 = 0xff
      then Some (drop 12 ip)
      else None)"

definition To16 :: "byte list \<Rightarrow> byte list option" where
  "To16 ip =
     (if length ip = 4 then Some (replicate 10 0 @ [0xff, 0xff] @ ip)
      else if length ip = 16 then Some ip
      else None)"

text \<open>The conversion \<open>uint8(n)\<close> of an \<open>int\<close>: the low eight bits.\<close>

definition uint8 :: "int \<Rightarrow> byte" where
  "uint8 n = word_of_int n"

text \<open>The verb \<open>%d\<close> of \<open>fmt\<close> on an unsigned value: its decimal digits.\<close>

fun decimal :: "nat \<Rightarrow> string" where
  "decimal n =
     (if n < 10 then [char_of (48 + n)]
      else decimal (n div 10) @ [char_of (48 + n mod 10)])"

declare decimal.simps [simp del]

text \<open>\<open>strings.HasPrefix\<close> and \<open>strings.Join\<close>.\<close>

definition HasPrefix :: "string \<Rightarrow> string \<Rightarrow> bool" where
  "HasPrefix s p = (length p \<le> length s \<and> take (length p) s = p)"

fun Join :: "string list \<Rightarrow> string \<Rightarrow> string" where
  "Join [] sep = []"
| "Join [x] sep = x"
| "Join (x # y # ys) sep = x @ sep @ Join (y # ys) sep"

section \<open>processData\<close>

definition isValidPrefixLength :: "IPNet \<Rightarrow> byte \<Rightarrow> bool" where
  "isValidPrefixLength prefix maxLength =
     (case Size (Mask prefix) of
        (plen, maxbits) \<Rightarrow>
          if plen = 0 \<or> uint8 plen > maxLength \<or> maxLength > uint8 maxbits then False
          else True)"

text \<open>The key of the map \<open>filterDuplicates\<close>: \<open>fmt.Sprintf("%s,%d,%d", prefix, asn, v.Length)\<close>.\<close>

definition dup_key :: "('srv, 'slurm) env \<Rightarrow> IPNet \<Rightarrow> 32 word \<Rightarrow> byte \<Rightarrow> string" where
  "dup_key L prefix asn len =
     IPNet_String L prefix @ '','' @ decimal (unat asn) @ '','' @ decimal (unat len)"

text \<open>
  The local variables of \<open>processData\<close> that the loop updates. The counters are Go
  \<open>int\<close>s that count entries of a slice held in memory, so they do not wrap.
\<close>

record pd_vars =
  filterDuplicates :: "string \<rightharpoonup> bool"
  vrplist :: "VRP list"
  countv4 :: int
  countv6 :: int

text \<open>One pass of the loop body; each \<open>continue\<close> returns the variables as they are.\<close>

definition pd_body :: "('srv, 'slurm) env \<Rightarrow> VRPJson \<Rightarrow> pd_vars \<Rightarrow> pd_vars" where
  "pd_body L v a =
     (case GetPrefix2 L v of
        Inl err \<Rightarrow> a
      | Inr prefix \<Rightarrow>
          (case GetASN2 L v of
             Inl err \<Rightarrow> a
           | Inr asn \<Rightarrow>
               if \<not> isValidPrefixLength prefix (Length v) then a
               else
                 let a1 = (if To4 (IP prefix) \<noteq> None
                           then a\<lparr>countv4 := countv4 a + 1\<rparr>
                           else a\<lparr>countv6 := countv6 a + 1\<rparr>);
                     key = dup_key L prefix asn (Length v)
                 in if filterDuplicates a1 key \<noteq> None then a1
                    else a1\<lparr>filterDuplicates := (filterDuplicates a1)(key \<mapsto> True),
                            vrplist := vrplist a1 @
                              [\<lparr>Prefix = prefix, ASN = asn, MaxLen = Length v\<rparr>]\<rparr>))"

fun pd_loop :: "('srv, 'slurm) env \<Rightarrow> VRPJson list \<Rightarrow> pd_vars \<Rightarrow> pd_vars" where
  "pd_loop L [] a = a"
| "pd_loop L (v # vs) a = pd_loop L vs (pd_body L v a)"

definition processData ::
  "('srv, 'slurm) env \<Rightarrow> VRPJson list \<Rightarrow> VRP list \<times> int \<times> int \<times> int" where
  "processData L vrplistjson =
     (let a = pd_loop L vrplistjson
                \<lparr>filterDuplicates = Map.empty, vrplist = [], countv4 = 0, countv6 = 0\<rparr>
      in (vrplist a, countv4 a + countv6 a, countv4 a, countv6 a))"

section \<open>updateFromNewState\<close>

text \<open>
  \<open>time.Hour\<close> and \<open>time.Second\<close> in nanoseconds, \<open>Time.IsZero\<close>, \<open>Time.UnixNano\<close>
  (the zero time lies 62135596800 seconds before the Unix epoch), and the division of
  Go's signed integers, which rounds towards zero.
\<close>

definition Hour :: int where
  "Hour = 3600000000000"

definition Second :: int where
  "Second = 1000000000"

definition IsZero :: "time \<Rightarrow> bool" where
  "IsZero t = (t = 0)"

definition UnixNano :: "time \<Rightarrow> int" where
  "UnixNano t = t - 62135596800 * Second"

definition go_div :: "int \<Rightarrow> int \<Rightarrow> int" where
  "go_div a b = (if (0 \<le> a) = (0 \<le> b) then \<bar>a\<bar> div \<bar>b\<bar> else - (\<bar>a\<bar> div \<bar>b\<bar>))"

text \<open>\<open>metricsEvent.UpdateMetrics\<close>; the parameter \<open>refreshed\<close> is not used by the source.\<close>

definition UpdateMetrics ::
  "int \<Rightarrow> int \<Rightarrow> int \<Rightarrow> int \<Rightarrow> time \<Rightarrow> time \<Rightarrow> string \<Rightarrow> collectors \<Rightarrow> collectors" where
  "UpdateMetrics numIPv4 numIPv6 numIPv4filtered numIPv6filtered changed refreshed file c =
     c\<lparr>NumberOfVRPs := (NumberOfVRPs c)
          ((''ipv4'', ''filtered'', file) \<mapsto> numIPv4filtered,
           (''ipv4'', ''unfiltered'', file) \<mapsto> numIPv4,
           (''ipv6'', ''filtered'', file) \<mapsto> numIPv6filtered,
           (''ipv6'', ''unfiltered'', file) \<mapsto> numIPv6),
       LastChange := (LastChange c)(file \<mapsto> go_div (UnixNano changed) 1000000000)\<rparr>"

text \<open>The loop over \<open>vrps\<close> that counts \<open>countv4_dup\<close> and \<open>countv6_dup\<close>.\<close>

fun count_dup :: "VRP list \<Rightarrow> int \<times> int \<Rightarrow> int \<times> int" where
  "count_dup [] c = c"
| "count_dup (vrp # vrps) (countv4_dup, countv6_dup) =
     count_dup vrps
       (if To4 (IP (Prefix vrp)) \<noteq> None then (countv4_dup + 1, countv6_dup)
        else if To16 (IP (Prefix vrp)) \<noteq> None then (countv4_dup, countv6_dup + 1)
        else (countv4_dup, countv6_dup))"

text \<open>
  The \<open>checktime\<close> block: the error it returns, if any. \<open>now\<close> is the reading of
  \<open>time.Now()\<close>; the text of the second error leaves out the rendered build time.
\<close>

definition check_buildtime :: "('srv, 'slurm) env \<Rightarrow> time \<Rightarrow> ('srv, 'slurm) state \<Rightarrow> error option" where
  "check_buildtime L now s =
     (if checktime s then
        (case time_Parse L (Buildtime (Metadata (lastdata s))) of
           Inl err \<Rightarrow> Some err
         | Inr buildtime \<Rightarrow>
             let notafter = buildtime + Hour * 24
             in if now > notafter
                then Some (ErrorString ''VRP JSON file is older than 24 hours'')
                else None)
      else None)"

text \<open>The SLURM block: the list that replaces \<open>vrpsjson\<close>.\<close>

definition apply_slurm ::
  "('srv, 'slurm) env \<Rightarrow> 'slurm option \<Rightarrow> VRPJson list \<Rightarrow> VRPJson list" where
  "apply_slurm L sl vrpsjson =
     (case sl of
        None \<Rightarrow> vrpsjson
      | Some c \<Rightarrow>
          (case FilterOnVRPs L c vrpsjson of
             (kept, removed) \<Rightarrow> let asserted = AssertVRPs L c in kept @ asserted))"

text \<open>
  \<open>state.updateFromNewState\<close>: the returned error (\<open>None\<close> is \<open>nil\<close>) and the state
  after the call. \<open>GetSessionId\<close> and \<open>GetCurrentSerial\<close> only read the server, for the
  log. The exported \<open>Data\<close> is the slice \<open>vrpsjson\<close>, written \<open>Some\<close> of its entries.
\<close>

definition updateFromNewState ::
  "('srv, 'slurm) env \<Rightarrow> time \<Rightarrow> ('srv, 'slurm) state \<Rightarrow> error option \<times> ('srv, 'slurm) state" where
  "updateFromNewState L now s =
     (case Data (lastdata s) of
        None \<Rightarrow> (None, s)
      | Some vrpsjson0 \<Rightarrow>
          (case check_buildtime L now s of
             Some err \<Rightarrow> (Some err, s)
           | None \<Rightarrow>
               let vrpsjson = apply_slurm L (slurm s) vrpsjson0
               in (case processData L vrpsjson of
                     (vrps, count, countv4', countv6') \<Rightarrow>
                       let srv1 = AddVRPs L vrps (server s);
                           srv2 = (if sendNotifs s then NotifyClientsLatest L srv1 else srv1);
                           ex = \<lparr>Metadata = \<lparr>Counts = int (length vrpsjson),
                                             Buildtime = Buildtime (Metadata (lastdata s))\<rparr>,
                                 Data = Some vrpsjson\<rparr>;
                           pm = (case metricsEvent s of
                                   None \<Rightarrow> prom s
                                 | Some m \<Rightarrow>
                                     (case count_dup vrps (0, 0) of
                                        (countv4_dup, countv6_dup) \<Rightarrow>
                                          UpdateMetrics countv4' countv6' countv4_dup countv6_dup
                                            (lastchange s) (lastts s) (CacheBin L) (prom s)))
                       in (None, s\<lparr>server := srv2, exported := ex, prom := pm\<rparr>))))"

text \<open>
  \<open>state.exporter\<close>: the value it copies under the read lock and hands to the JSON
  encoder of the response, \<open>Encode\<close>.
\<close>

definition exporter :: "(VRPList \<Rightarrow> byte list) \<Rightarrow> ('srv, 'slurm) state \<Rightarrow> byte list" where
  "exporter Encode s = (let toExport = exported s in Encode toExport)"

section \<open>updateFile, updateSlurm and the refresh loop\<close>

text \<open>What \<open>FetchFile\<close> returns: the body, the status code, \<open>lastrefresh\<close>, the error.\<close>

type_synonym fetched = "byte list \<times> int \<times> bool \<times> error option"

definition newSHA256 :: "('srv, 'slurm) env \<Rightarrow> byte list \<Rightarrow> byte list" where
  "newSHA256 L data = Sum256 L data"

definition decodeJSON :: "('srv, 'slurm) env \<Rightarrow> byte list \<Rightarrow> VRPList \<times> error option" where
  "decodeJSON L data = json_Decode L data"

text \<open>The two collector updates that follow a fetch, in \<open>updateFile\<close> and \<open>updateSlurm\<close>.\<close>

definition note_fetch ::
  "string \<Rightarrow> int \<Rightarrow> bool \<Rightarrow> ('srv, 'slurm) state \<Rightarrow> ('srv, 'slurm) state" where
  "note_fetch file code lastrefresh s =
     (let s1 = (if lastrefresh
                then s\<lparr>prom := (prom s)\<lparr>LastRefresh := (LastRefresh (prom s))
                        (file \<mapsto> go_div (UnixNano (lastts s)) 1000000000)\<rparr>\<rparr>
                else s)
      in if code \<noteq> - 1
         then s1\<lparr>prom := (prom s1)\<lparr>RefreshStatusCode := (RefreshStatusCode (prom s1))
                 ((file, code) := Suc (RefreshStatusCode (prom s1) (file, code)))\<rparr>\<rparr>
         else s1)"

text \<open>
  \<open>state.updateFile\<close>. \<open>now1\<close> and \<open>now2\<close> are the two readings of \<open>time.Now()\<close>,
  \<open>fetch\<close> the result of \<open>FetchFile\<close>.
\<close>

definition updateFile ::
  "('srv, 'slurm) env \<Rightarrow> string \<Rightarrow> time \<Rightarrow> fetched \<Rightarrow> time \<Rightarrow> ('srv, 'slurm) state
     \<Rightarrow> (bool \<times> error option) \<times> ('srv, 'slurm) state" where
  "updateFile L file now1 fetch now2 s =
     (let s1 = s\<lparr>lastts := now1\<rparr>
      in case fetch of
           (data, code, lastrefresh, err) \<Rightarrow>
             (case err of
                Some e \<Rightarrow> ((False, Some e), s1)
              | None \<Rightarrow>
                  let s2 = note_fetch file code lastrefresh s1;
                      hsum = newSHA256 L data
                  in if (case lasthash s2 of None \<Rightarrow> False | Some h \<Rightarrow> h = hsum)
                     then ((False, Some (IdenticalFile file)), s2)
                     else (case decodeJSON L data of
                             (vrplistjson, Some e) \<Rightarrow> ((False, Some e), s2)
                           | (vrplistjson, None) \<Rightarrow>
                               ((True, None),
                                s2\<lparr>lasthash := Some hsum, lastchange := now2,
                                   lastdata := vrplistjson\<rparr>))))"

definition updateSlurm ::
  "('srv, 'slurm) env \<Rightarrow> string \<Rightarrow> fetched \<Rightarrow> ('srv, 'slurm) state
     \<Rightarrow> (bool \<times> error option) \<times> ('srv, 'slurm) state" where
  "updateSlurm L file fetch s =
     (case fetch of
        (data, code, lastrefresh, err) \<Rightarrow>
          (case err of
             Some e \<Rightarrow> ((False, Some e), s)
           | None \<Rightarrow>
               let s2 = note_fetch file code lastrefresh s
               in (case DecodeJSONSlurm L data of
                     Inl e \<Rightarrow> ((False, Some e), s2)
                   | Inr c \<Rightarrow> ((True, None), s2\<lparr>slurm := Some c\<rparr>))))"

text \<open>
  What one pass of the loop of \<open>routineUpdate\<close> takes from the outside: the two fetch
  results and the clock readings. What it shows: the duration of the timer it set, in
  nanoseconds, the two flags and the error of \<open>updateFromNewState\<close>, if it was called.
\<close>

record tick =
  slurmFetch :: fetched
  fileNow :: time
  fileFetch :: fetched
  changeNow :: time
  stateNow :: time

record pass =
  delay :: int
  cacheUpdated :: bool
  slurmNotPresentOrUpdated :: bool
  stateError :: "error option"

text \<open>
  The duration of the timer: the constant \<open>time.Duration(30) * time.Second\<close>, or the
  product \<open>time.Duration(interval) * time.Second\<close> of two \<open>int64\<close> values at run time,
  which wraps around. A timer whose duration is not positive fires at once.
\<close>

definition int64_mul :: "int \<Rightarrow> int \<Rightarrow> int" where
  "int64_mul a b = sint ((word_of_int a :: 64 word) * word_of_int b)"

definition routine_delay :: "('srv, 'slurm) state \<Rightarrow> int \<Rightarrow> int" where
  "routine_delay s interval =
     (if IsZero (lastchange s) then 30 * Second else int64_mul interval Second)"

definition routine_pass ::
  "('srv, 'slurm) env \<Rightarrow> string \<Rightarrow> int \<Rightarrow> string \<Rightarrow> tick \<Rightarrow> ('srv, 'slurm) state
     \<Rightarrow> pass \<times> ('srv, 'slurm) state" where
  "routine_pass L file interval slurmFile tk s =
     (let d = routine_delay s interval in
      case (if slurmFile \<noteq> []
            then (case updateSlurm L slurmFile (slurmFetch tk) s of ((b, err), s1) \<Rightarrow> (b, s1))
            else (False, s)) of
        (slurmUpdated, s1) \<Rightarrow>
          (case updateFile L file (fileNow tk) (fileFetch tk) (changeNow tk) s1 of
             ((cacheUpd, err), s2) \<Rightarrow>
               (case (if cacheUpd \<or> slurmUpdated
                      then updateFromNewState L (stateNow tk) s2
                      else (None, s2)) of
                  (serr, s3) \<Rightarrow>
                    (\<lparr>delay = d, cacheUpdated = cacheUpd,
                      slurmNotPresentOrUpdated = slurmUpdated, stateError = serr\<rparr>, s3))))"

text \<open>
  \<open>state.routineUpdate\<close> never returns. The function runs as many passes of its loop
  as the list of ticks is long and returns what each pass showed.
\<close>

fun routineUpdate ::
  "('srv, 'slurm) env \<Rightarrow> string \<Rightarrow> int \<Rightarrow> string \<Rightarrow> tick list \<Rightarrow> ('srv, 'slurm) state
     \<Rightarrow> pass list \<times> ('srv, 'slurm) state" where
  "routineUpdate L file interval slurmFile [] s = ([], s)"
| "routineUpdate L file interval slurmFile (tk # tks) s =
     (case routine_pass L file interval slurmFile tk s of
        (p, s1) \<Rightarrow>
          (case routineUpdate L file interval slurmFile tks s1 of
             (ps, s2) \<Rightarrow> (p # ps, s2)))"

section \<open>run\<close>

text \<open>
  The argument checks at the head of \<open>run\<close>, after \<open>flag.Parse()\<close>: \<open>prog\<close> is
  \<open>os.Args[0]\<close>, \<open>args\<close> the positional arguments \<open>flag.Args()\<close>. The result is what
  the process printed and its exit status when it exits here, \<open>None\<close> when \<open>run\<close> goes on.
\<close>

definition run_args :: "string \<Rightarrow> string list \<Rightarrow> bool \<Rightarrow> string \<Rightarrow> (string \<times> int) option" where
  "run_args prog args Version AppVersion =
     (if length args > 0
      then Some (prog @ '': illegal positional argument(s) provided ('' @ [CHR 0x22]
                   @ Join args '' '' @ [CHR 0x22]
                   @ '') - did you mean to provide a flag?'' @ [CHR 0x0A], 2)
      else if Version then Some (AppVersion @ [CHR 0x0A], 0)
      else None)"

text \<open>The state \<open>run\<close> builds, with collectors that nothing has written yet.\<close>

definition new_collectors :: collectors where
  "new_collectors =
     \<lparr>NumberOfVRPs = Map.empty, LastRefresh = Map.empty, LastChange = Map.empty,
      RefreshStatusCode = (\<lambda>k. 0)\<rparr>"

definition new_VRPList :: VRPList where
  "new_VRPList = \<lparr>Metadata = \<lparr>Counts = 0, Buildtime = []\<rparr>, Data = None\<rparr>"

definition new_state :: "'srv \<Rightarrow> unit option \<Rightarrow> bool \<Rightarrow> bool \<Rightarrow> ('srv, 'slurm) state" where
  "new_state srv me SendNotifs TimeCheck =
     \<lparr>lastdata = new_VRPList, lasthash = None, lastchange = 0, lastts = 0,
      sendNotifs = SendNotifs, useSerial = 0, server = srv, metricsEvent = me,
      exported = new_VRPList, slurm = None, checktime = TimeCheck,
      prom = new_collectors\<rparr>"

text \<open>
  The first synchronisation of \<open>run\<close>: \<open>updateFile\<close>, \<open>updateSlurm\<close> when the flag
  \<open>-slurm\<close> names a file, then \<open>updateFromNewState\<close>; its errors are only logged.
\<close>

definition run_sync ::
  "('srv, 'slurm) env \<Rightarrow> string \<Rightarrow> tick \<Rightarrow> ('srv, 'slurm) state \<Rightarrow> ('srv, 'slurm) state" where
  "run_sync L Slurm tk s =
     (case updateFile L (CacheBin L) (fileNow tk) (fileFetch tk) (changeNow tk) s of
        (r, s1) \<Rightarrow>
          let s2 = (if Slurm \<noteq> [] then snd (updateSlurm L Slurm (slurmFetch tk) s1) else s1)
          in snd (updateFromNewState L (stateNow tk) s2))"

text \<open>
  The flags \<open>run\<close> reads here, and \<open>run\<close> itself up to the loop: it exits in the
  argument checks, or with status 1 when no bind address is given (\<open>log.Fatalf\<close>), or
  it synchronises once with the tick \<open>tk0\<close> and enters \<open>routineUpdate\<close>, which runs on
  the ticks \<open>tks\<close>. \<open>srv\<close> is the server \<open>rtr.NewServer\<close> returns. The listeners that
  are started between the first synchronisation and the loop run concurrently and are
  left out.
\<close>

record flags =
  Version :: bool
  MetricsAddr :: string
  SendNotifs :: bool
  TimeCheck :: bool
  Bind :: string
  BindTLS :: string
  BindSSH :: string
  Slurm :: string
  SlurmRefresh :: bool
  RefreshInterval :: int

datatype ('srv, 'slurm) outcome =
    Exited (printed: string) (status: int)
  | Looping (passes: "pass list") (final: "('srv, 'slurm) state")

definition run ::
  "('srv, 'slurm) env \<Rightarrow> flags \<Rightarrow> string \<Rightarrow> string list \<Rightarrow> string \<Rightarrow> 'srv \<Rightarrow> tick \<Rightarrow> tick list
     \<Rightarrow> ('srv, 'slurm) outcome" where
  "run L F prog args AppVersion srv tk0 tks =
     (case run_args prog args (Version F) AppVersion of
        Some (out, code) \<Rightarrow> Exited out code
      | None \<Rightarrow>
          let me = (if MetricsAddr F \<noteq> [] then Some () else None);
              s = new_state srv me (SendNotifs F) (TimeCheck F)
          in if Bind F = [] \<and> BindTLS F = [] \<and> BindSSH F = [] then Exited [] 1
             else
               let s1 = run_sync L (Slurm F) tk0 s;
                   slurmFile = (if Slurm F \<noteq> [] \<and> \<not> SlurmRefresh F then [] else Slurm F)
               in (case routineUpdate L (CacheBin L) (RefreshInterval F) slurmFile tks s1 of
                     (ps, s2) \<Rightarrow> Looping ps s2))"

section \<open>The SSH public-key callback\<close>

text \<open>
  An \<open>ssh.PublicKey\<close> with the results of its methods \<open>Type\<close> and \<open>Marshal\<close>, and
  \<open>ssh.Permissions\<close>.
\<close>

record PublicKey =
  Type :: string
  Marshal :: "byte list"

record Permissions =
  CriticalOptions :: "string \<rightharpoonup> string"
  Extensions :: "string \<rightharpoonup> string"

text \<open>The loop over \<open>sshClientKeys\<close>: the value of \<open>noKeys\<close> when it ends.\<close>

fun keys_loop :: "string \<Rightarrow> string list \<Rightarrow> bool" where
  "keys_loop want [] = False"
| "keys_loop want (k # ks) =
     (if k = [] then keys_loop want ks
      else if HasPrefix k want then True
      else keys_loop want ks)"

text \<open>
  \<open>sshConfig.PublicKeyCallback\<close>. \<open>EncodeToString\<close> is that of
  \<open>base64.RawStdEncoding\<close>, \<open>bypass\<close> the flag \<open>-ssh.auth.key.bypass\<close>.
\<close>

definition PublicKeyCallback ::
  "(byte list \<Rightarrow> string) \<Rightarrow> bool \<Rightarrow> string list \<Rightarrow> PublicKey \<Rightarrow> error + Permissions" where
  "PublicKeyCallback EncodeToString bypass sshClientKeys key =
     (let keyBase64 = EncodeToString (Marshal key);
          granted = \<lparr>CriticalOptions = Map.empty, Extensions = Map.empty\<rparr>
      in if \<not> bypass
         then (let noKeys = keys_loop (Type key @ '' '' @ keyBase64) sshClientKeys
               in if \<not> noKeys then Inl (ErrorString ''Key not found'') else Inr granted)
         else Inr granted)"

section \<open>Notions used to state the properties\<close>

text \<open>
  The record an entry is ingested as, if it passes the three checks of the loop of
  \<open>processData\<close>; the records of a list of entries, duplicates included; the key of a
  record; and whether the code counts a record as IPv4.
\<close>

definition ingest :: "('srv, 'slurm) env \<Rightarrow> VRPJson \<Rightarrow> VRP option" where
  "ingest L v =
     (case GetPrefix2 L v of
        Inl err \<Rightarrow> None
      | Inr prefix \<Rightarrow>
          (case GetASN2 L v of
             Inl err \<Rightarrow> None
           | Inr asn \<Rightarrow>
               if isValidPrefixLength prefix (Length v)
               then Some \<lparr>Prefix = prefix, ASN = asn, MaxLen = Length v\<rparr>
               else None))"

definition valid_vrps :: "('srv, 'slurm) env \<Rightarrow> VRPJson list \<Rightarrow> VRP list" where
  "valid_vrps L vs = List.map_filter (ingest L) vs"

definition vrp_key :: "('srv, 'slurm) env \<Rightarrow> VRP \<Rightarrow> string" where
  "vrp_key L r = dup_key L (Prefix r) (ASN r) (MaxLen r)"

definition is_v4 :: "VRP \<Rightarrow> bool" where
  "is_v4 r = (To4 (IP (Prefix r)) \<noteq> None)"

text \<open>
  The first record of each key, in order, skipping the keys already seen: what a
  deduplication by key keeps.
\<close>

fun first_by_key :: "('srv, 'slurm) env \<Rightarrow> string set \<Rightarrow> VRP list \<Rightarrow> VRP list" where
  "first_by_key L seen [] = []"
| "first_by_key L seen (r # rs) =
     (if vrp_key L r \<in> seen then first_by_key L seen rs
      else r # first_by_key L (insert (vrp_key L r) seen) rs)"

text \<open>
  What a deduplication by the triple (prefix, ASN, maximum length) keeps: the first
  occurrence of each record, in order; \<open>seen\<close> holds the records met so far. It does
  not mention the key of the code.
\<close>

fun first_occurrences :: "VRP list \<Rightarrow> VRP list \<Rightarrow> VRP list" where
  "first_occurrences seen [] = []"
| "first_occurrences seen (r # rs) =
     (if r \<in> set seen then first_occurrences seen rs
      else r # first_occurrences (r # seen) rs)"


text \<open>
  The bound \<open>isValidPrefixLength\<close> enforces, read on the mask: the network length is
  not zero and at most the maximum length, which is at most the number of bits of the
  mask, 32 for a 4-byte mask and 128 for a 16-byte one. The width of the family the
  code counts a record in is another number: 32 when \<open>IP.To4\<close> is not nil, 128
  otherwise.
\<close>

definition mask_width :: "IPNet \<Rightarrow> int" where
  "mask_width p = (if length (Mask p) = 4 then 32 else 128)"

definition family_width :: "IPNet \<Rightarrow> int" where
  "family_width p = (if To4 (IP p) \<noteq> None then 32 else 128)"

definition network_length :: "IPNet \<Rightarrow> int" where
  "network_length p = fst (Size (Mask p))"

definition in_bounds :: "IPNet \<Rightarrow> byte \<Rightarrow> bool" where
  "in_bounds p len =
     (0 < network_length p \<and> network_length p \<le> uint len \<and> uint len \<le> mask_width p)"

definition accepted :: "('srv, 'slurm) env \<Rightarrow> VRPJson \<Rightarrow> bool" where
  "accepted L v =
     (case GetPrefix2 L v of
        Inl err \<Rightarrow> False
      | Inr prefix \<Rightarrow>
          (case GetASN2 L v of
             Inl err \<Rightarrow> False
           | Inr asn \<Rightarrow> in_bounds prefix (Length v)))"

definition masks_4_or_16 :: "('srv, 'slurm) env \<Rightarrow> VRPJson list \<Rightarrow> bool" where
  "masks_4_or_16 L vs =
     list_all (\<lambda>v. case GetPrefix2 L v of
                     Inl err \<Rightarrow> True
                   | Inr prefix \<Rightarrow> length (Mask prefix) = 4 \<or> length (Mask prefix) = 16) vs"

section \<open>A small environment to run the definitions on\<close>

text \<open>
  Stand-ins for the library functions, defined on the few inputs the examples use:
  a server that records the calls it receives, a SLURM configuration that filters by
  the text of the prefix, and tables for the parsers and decoders.
\<close>

record demo_server =
  installed :: "VRP list list"
  notified :: nat

record demo_slurm =
  prefixFilters :: "string list"
  prefixAssertions :: "VRPJson list"

definition net_10_0_0_0_24 :: IPNet where
  "net_10_0_0_0_24 = \<lparr>IP = [10, 0, 0, 0], Mask = [255, 255, 255, 0]\<rparr>"

definition net_2001_db8_32 :: IPNet where
  "net_2001_db8_32 =
     \<lparr>IP = [0x20, 0x01, 0x0d, 0xb8, 0, 0, 0, 0, 0, 0, 0, 0, 0, 0, 0, 0],
      Mask = [255, 255, 255, 255, 0, 0, 0, 0, 0, 0, 0, 0, 0, 0, 0, 0]\<rparr>"

text \<open>
  The IPv4-mapped IPv6 prefix ::ffff:10.0.0.0/120, as \<open>net.ParseCIDR\<close> returns it: a
  16-byte address and a 16-byte mask. \<open>net.IPNet.String\<close> renders it as 10.0.0.0/24.
\<close>

definition net_mapped_10_0_0_0_120 :: IPNet where
  "net_mapped_10_0_0_0_120 =
     \<lparr>IP = [0, 0, 0, 0, 0, 0, 0, 0, 0, 0, 0xff, 0xff, 10, 0, 0, 0],
      Mask = [255, 255, 255, 255, 255, 255, 255, 255, 255, 255, 255, 255, 255, 255, 255, 0]\<rparr>"

definition demo_GetPrefix2 :: "VRPJson \<Rightarrow> error + IPNet" where
  "demo_GetPrefix2 v =
     (if json_prefix v = ''10.0.0.0/24'' then Inr net_10_0_0_0_24
      else if json_prefix v = ''2001:db8::/32'' then Inr net_2001_db8_32
      else if json_prefix v = ''::ffff:10.0.0.0/120'' then Inr net_mapped_10_0_0_0_120
      else Inl (ErrorString ''Could not decode prefix''))"

definition demo_GetASN2 :: "VRPJson \<Rightarrow> error + 32 word" where
  "demo_GetASN2 v =
     (case json_asn v of
        AsnNumber n \<Rightarrow> Inr (of_nat n)
      | AsnText t \<Rightarrow>
          if t = ''AS1'' then Inr 1
          else if t = ''AS2'' then Inr 2
          else Inl (ErrorString ''Could not decode ASN string''))"

definition demo_String :: "IPNet \<Rightarrow> string" where
  "demo_String p =
     (if p = net_10_0_0_0_24 then ''10.0.0.0/24''
      else if p = net_2001_db8_32 then ''2001:db8::/32''
      else if p = net_mapped_10_0_0_0_120 then ''10.0.0.0/24''
      else ''<nil>'')"

text \<open>The first instant of 2021, and the one build time the table knows.\<close>

definition t_2021 :: time where
  "t_2021 = 63745056000 * Second"

definition demo_Parse :: "string \<Rightarrow> error + time" where
  "demo_Parse t =
     (if t = ''2021-01-01T00:00:00Z'' then Inr t_2021
      else Inl (ErrorString ''cannot parse time''))"

definition entry :: "string \<Rightarrow> string \<Rightarrow> byte \<Rightarrow> VRPJson" where
  "entry p a len = \<lparr>json_prefix = p, json_asn = AsnText a, Length = len\<rparr>"

text \<open>
  Three documents, by the first byte of their body: one with the entries of the
  deduplication scenario, one without the key \<open>roas\<close>, one whose build time does not
  parse. Any other body fails to decode.
\<close>

definition doc_dedup :: VRPList where
  "doc_dedup =
     \<lparr>Metadata = \<lparr>Counts = 3, Buildtime = ''2021-01-01T00:00:00Z''\<rparr>,
      Data = Some [entry ''10.0.0.0/24'' ''AS1'' 24, entry ''10.0.0.0/24'' ''AS1'' 24,
                   entry ''10.0.0.0/24'' ''AS1'' 25]\<rparr>"

definition doc_no_roas :: VRPList where
  "doc_no_roas = \<lparr>Metadata = \<lparr>Counts = 0, Buildtime = ''2021-01-01T00:00:00Z''\<rparr>, Data = None\<rparr>"

definition doc_bad_time :: VRPList where
  "doc_bad_time =
     \<lparr>Metadata = \<lparr>Counts = 1, Buildtime = ''yesterday''\<rparr>,
      Data = Some [entry ''2001:db8::/32'' ''AS2'' 48]\<rparr>"

definition demo_Decode :: "byte list \<Rightarrow> VRPList \<times> error option" where
  "demo_Decode d =
     (if d = [1] then (doc_dedup, None)
      else if d = [2] then (doc_no_roas, None)
      else if d = [3] then (doc_bad_time, None)
      else (new_VRPList, Some (ErrorString ''invalid character'')))"

definition demo_FilterOnVRPs :: "demo_slurm \<Rightarrow> VRPJson list \<Rightarrow> VRPJson list \<times> VRPJson list" where
  "demo_FilterOnVRPs c vs =
     (filter (\<lambda>v. json_prefix v \<notin> set (prefixFilters c)) vs,
      filter (\<lambda>v. json_prefix v \<in> set (prefixFilters c)) vs)"

text \<open>
  A SLURM configuration that filters the prefix 10.0.0.0/24 and asserts an entry of
  that same prefix; it is what the body \<open>[7]\<close> of a SLURM file decodes to.
\<close>

definition demo_slurm_cfg :: demo_slurm where
  "demo_slurm_cfg =
     \<lparr>prefixFilters = [''10.0.0.0/24''],
      prefixAssertions = [entry ''10.0.0.0/24'' ''AS2'' 24]\<rparr>"

definition demo_env :: "(demo_server, demo_slurm) env" where
  "demo_env =
     \<lparr>GetPrefix2 = demo_GetPrefix2, GetASN2 = demo_GetASN2, IPNet_String = demo_String,
      time_Parse = demo_Parse, FilterOnVRPs = demo_FilterOnVRPs,
      AssertVRPs = prefixAssertions,
      AddVRPs = (\<lambda>vrps srv. srv\<lparr>installed := installed srv @ [vrps]\<rparr>),
      NotifyClientsLatest = (\<lambda>srv. srv\<lparr>notified := Suc (notified srv)\<rparr>),
      Sum256 = (\<lambda>d. d),
      json_Decode = demo_Decode,
      DecodeJSONSlurm =
        (\<lambda>d. if d = [7] then Inr demo_slurm_cfg else Inl (ErrorString ''no SLURM file'')),
      CacheBin = ''https://example.net/vrps.json''\<rparr>"

definition demo_server0 :: demo_server where
  "demo_server0 = \<lparr>installed = [], notified = 0\<rparr>"

definition demo_state :: "(demo_server, demo_slurm) state" where
  "demo_state = new_state demo_server0 (Some ()) True True"

definition demo_flags :: flags where
  "demo_flags =
     \<lparr>Version = False, MetricsAddr = '':9847'', SendNotifs = True, TimeCheck = True,
      Bind = '':8282'', BindTLS = [], BindSSH = [], Slurm = [], SlurmRefresh = True,
      RefreshInterval = 600\<rparr>"

definition demo_key :: PublicKey where
  "demo_key = \<lparr>Type = ''ssh-ed25519'', Marshal = [1, 2, 3]\<rparr>"

text \<open>
  A tick whose fetch returns the body \<open>d\<close> with status 200 at the clock reading
  \<open>now\<close>; no SLURM file is fetched.
\<close>

definition tick_of :: "byte list \<Rightarrow> time \<Rightarrow> tick" where
  "tick_of d now =
     \<lparr>slurmFetch = ([], - 1, False, Some (ErrorString ''no SLURM file'')),
      fileNow = now, fileFetch = (d, 200, True, None), changeNow = now, stateNow = now\<rparr>"

text \<open>
  The state after the first \<open>updateFile\<close> call of a process that fetched the body
  \<open>d\<close> at the clock reading \<open>now\<close>.
\<close>

definition demo_fetched :: "byte list \<Rightarrow> time \<Rightarrow> (demo_server, demo_slurm) state" where
  "demo_fetched d now =
     snd (updateFile demo_env (CacheBin demo_env) now (d, 200, True, None) now demo_state)"

text \<open>
  A state with the SLURM configuration above and a document of two entries.
\<close>

definition doc_mixed :: VRPList where
  "doc_mixed =
     \<lparr>Metadata = \<lparr>Counts = 2, Buildtime = ''2021-01-01T00:00:00Z''\<rparr>,
      Data = Some [entry ''2001:db8::/32'' ''AS2'' 48, entry ''10.0.0.0/24'' ''AS1'' 24]\<rparr>"

definition demo_slurm_state :: "(demo_server, demo_slurm) state" where
  "demo_slurm_state = demo_state\<lparr>lastdata := doc_mixed, slurm := Some demo_slurm_cfg\<rparr>"

text \<open>The state of a process whose last decoded document is \<open>d\<close>.\<close>

definition demo_loaded :: "VRPList \<Rightarrow> (demo_server, demo_slurm) state" where
  "demo_loaded d = demo_state\<lparr>lastdata := d\<rparr>"

text \<open>
  A tick whose fetch of the SLURM file succeeds while the fetch of the cache fails,
  and the state of a process after a first synchronisation on it.
\<close>

definition tick_slurm_only :: "time \<Rightarrow> tick" where
  "tick_slurm_only now =
     \<lparr>slurmFetch = ([7], 200, True, None),
      fileNow = now, fileFetch = ([], - 1, False, Some (ErrorString ''timeout'')),
      changeNow = now, stateNow = now\<rparr>"

definition demo_slurm_only :: "(demo_server, demo_slurm) state" where
  "demo_slurm_only = run_sync demo_env ''slurm.json'' (tick_slurm_only t_2021) demo_state"

text \<open>A tick whose fetch fails.\<close>

definition tick_failing :: "time \<Rightarrow> tick" where
  "tick_failing now =
     \<lparr>slurmFetch = ([], - 1, False, Some (ErrorString ''no SLURM file'')),
      fileNow = now, fileFetch = ([], - 1, False, Some (ErrorString ''timeout'')),
      changeNow = now, stateNow = now\<rparr>"

text \<open>
  The build time of the last decoded document does not parse, or lies more than 24
  hours before \<open>now\<close>.
\<close>

definition stale_or_unparsable ::
  "('srv, 'slurm) env \<Rightarrow> time \<Rightarrow> ('srv, 'slurm) state \<Rightarrow> bool" where
  "stale_or_unparsable L now s =
     (case time_Parse L (Buildtime (Metadata (lastdata s))) of
        Inl err \<Rightarrow> True
      | Inr buildtime \<Rightarrow> buildtime + 24 * Hour < now)"

text \<open>The result of the first \<open>updateFile\<close> call of \<open>run\<close>.\<close>

definition first_sync_ok ::
  "('srv, 'slurm) env \<Rightarrow> flags \<Rightarrow> 'srv \<Rightarrow> tick \<Rightarrow> bool" where
  "first_sync_ok L F srv tk0 =
     fst (fst (updateFile L (CacheBin L) (fileNow tk0) (fileFetch tk0) (changeNow tk0)
       (new_state srv (if MetricsAddr F \<noteq> [] then Some () else None)
          (SendNotifs F) (TimeCheck F) :: ('srv, 'slurm) state)))"

section \<open>processData: what the loop computes\<close>

lemma pd_body_ingest:
  "pd_body L v a =
     (case ingest L v of
        None \<Rightarrow> a
      | Some r \<Rightarrow>
          if filterDuplicates a (vrp_key L r) \<noteq> None
          then a\<lparr>countv4 := countv4 a + (if is_v4 r then 1 else 0),
                 countv6 := countv6 a + (if is_v4 r then 0 else 1)\<rparr>
          else a\<lparr>countv4 := countv4 a + (if is_v4 r then 1 else 0),
                 countv6 := countv6 a + (if is_v4 r then 0 else 1),
                 filterDuplicates := (filterDuplicates a)(vrp_key L r \<mapsto> True),
                 vrplist := vrplist a @ [r]\<rparr>)"
  by (simp add: pd_body_def ingest_def vrp_key_def is_v4_def Let_def split: sum.split)

lemma valid_vrps_Nil: "valid_vrps L [] = []"
  by (simp add: valid_vrps_def)

lemma valid_vrps_Cons:
  "valid_vrps L (v # vs) =
     (case ingest L v of None \<Rightarrow> valid_vrps L vs | Some r \<Rightarrow> r # valid_vrps L vs)"
  by (simp add: valid_vrps_def split: option.split)

lemma pd_body_dom:
  "dom (filterDuplicates (pd_body L v a)) =
     (case ingest L v of
        None \<Rightarrow> dom (filterDuplicates a)
      | Some r \<Rightarrow> insert (vrp_key L r) (dom (filterDuplicates a)))"
  by (auto simp: pd_body_ingest domIff split: option.split if_splits)

lemma pd_body_vrplist:
  "vrplist (pd_body L v a) =
     (case ingest L v of
        None \<Rightarrow> vrplist a
      | Some r \<Rightarrow>
          if vrp_key L r \<in> dom (filterDuplicates a) then vrplist a else vrplist a @ [r])"
  by (auto simp: pd_body_ingest domIff split: option.split)

lemma pd_loop_vrplist:
  "vrplist (pd_loop L vs a) =
     vrplist a @ first_by_key L (dom (filterDuplicates a)) (valid_vrps L vs)"
proof (induction vs arbitrary: a)
  case Nil
  show ?case by (simp add: valid_vrps_Nil)
next
  case (Cons v vs)
  show ?case
    by (cases "ingest L v")
      (simp_all add: Cons.IH pd_body_dom pd_body_vrplist valid_vrps_Cons insert_absorb)
qed

lemma pd_loop_countv4:
  "countv4 (pd_loop L vs a) = countv4 a + int (length (filter is_v4 (valid_vrps L vs)))"
proof (induction vs arbitrary: a)
  case Nil
  show ?case by (simp add: valid_vrps_Nil)
next
  case (Cons v vs)
  show ?case
    by (cases "ingest L v") (simp_all add: Cons.IH pd_body_ingest valid_vrps_Cons)
qed

lemma pd_loop_countv6:
  "countv6 (pd_loop L vs a) =
     countv6 a + int (length (filter (\<lambda>r. \<not> is_v4 r) (valid_vrps L vs)))"
proof (induction vs arbitrary: a)
  case Nil
  show ?case by (simp add: valid_vrps_Nil)
next
  case (Cons v vs)
  show ?case
    by (cases "ingest L v") (simp_all add: Cons.IH pd_body_ingest valid_vrps_Cons)
qed

lemma processData_eq:
  "processData L vs =
     (first_by_key L {} (valid_vrps L vs),
      int (length (valid_vrps L vs)),
      int (length (filter is_v4 (valid_vrps L vs))),
      int (length (filter (\<lambda>r. \<not> is_v4 r) (valid_vrps L vs))))"
proof -
  have "length (filter is_v4 (valid_vrps L vs))
          + length (filter (\<lambda>r. \<not> is_v4 r) (valid_vrps L vs))
        = length (valid_vrps L vs)"
    by (rule sum_length_filter_compl)
  then show ?thesis
    by (simp add: processData_def Let_def pd_loop_vrplist pd_loop_countv4 pd_loop_countv6
        flip: of_nat_add)
qed

lemma first_by_key_subset: "set (first_by_key L seen rs) \<subseteq> set rs"
  by (induction rs arbitrary: seen) auto



lemma decimal_24_25: "decimal (unat (24 :: byte)) \<noteq> decimal (unat (25 :: byte))"
  by (simp add: decimal.simps)


text \<open>The demo environment on the entries of the deduplication scenario.\<close>

lemma Size_mask24: "Size [255, 255, 255, 0] = (24, 32)"
  by (simp add: Size_def mask_bits_def byte_bits_def)

lemma demo_ingest_v4:
  "len = 24 \<or> len = 25 \<Longrightarrow>
   ingest demo_env (entry ''10.0.0.0/24'' ''AS1'' len) =
     Some \<lparr>Prefix = net_10_0_0_0_24, ASN = 1, MaxLen = len\<rparr>"
  by (auto simp: ingest_def demo_env_def demo_GetPrefix2_def demo_GetASN2_def entry_def
      isValidPrefixLength_def Size_mask24 net_10_0_0_0_24_def uint8_def)

lemma demo_key_v4:
  "vrp_key demo_env \<lparr>Prefix = net_10_0_0_0_24, ASN = 1, MaxLen = len\<rparr> =
     ''10.0.0.0/24,1,'' @ decimal (unat len)"
proof -
  have "decimal (unat (1 :: 32 word)) = ''1''"
    by code_simp
  then show ?thesis
    by (simp add: vrp_key_def dup_key_def demo_env_def demo_String_def)
qed

lemma is_v4_demo: "is_v4 \<lparr>Prefix = net_10_0_0_0_24, ASN = a, MaxLen = len\<rparr>"
  by (simp add: is_v4_def To4_def net_10_0_0_0_24_def)

lemma demo_processData:
  "processData demo_env
     [entry ''10.0.0.0/24'' ''AS1'' 24, entry ''10.0.0.0/24'' ''AS1'' 24,
      entry ''10.0.0.0/24'' ''AS1'' 25] =
     ([\<lparr>Prefix = net_10_0_0_0_24, ASN = 1, MaxLen = 24\<rparr>,
       \<lparr>Prefix = net_10_0_0_0_24, ASN = 1, MaxLen = 25\<rparr>], 3, 3, 0)"
  using decimal_24_25
  by (simp add: processData_eq valid_vrps_Cons valid_vrps_Nil demo_ingest_v4 demo_key_v4
      is_v4_demo)

section \<open>The key of the duplicate map tells the triples apart\<close>











lemma first_occurrences_set: "set (first_occurrences seen rs) = set rs - set seen"
  by (induction rs arbitrary: seen) auto

lemma first_occurrences_distinct: "distinct (first_occurrences seen rs)"
  by (induction rs arbitrary: seen) (auto simp: first_occurrences_set)

section \<open>Deduplication and counts\<close>








section \<open>The SSH public-key callback accepts exactly the listed keys\<close>

lemma keys_loop_iff:
  "keys_loop want ks = (\<exists>k \<in> set ks. k \<noteq> [] \<and> HasPrefix k want)"
  by (induction ks) auto

text \<open>
  Claim C8. With the bypass flag off, the public-key callback grants permissions if
  and only if some non-empty line of the authorized-keys list starts with the key's
  type, a space and the base64 text of the key; when no line does, it returns the
  error "Key not found". With the bypass flag on it grants permissions for every key.
\<close>

theorem PublicKeyCallback_accepts_iff_match:
  "(\<not> bypass \<longrightarrow>
      ((\<exists>perm. PublicKeyCallback enc bypass ks key = Inr perm) =
         (\<exists>k \<in> set ks. k \<noteq> [] \<and> HasPrefix k (Type key @ '' '' @ enc (Marshal key))))
      \<and> ((\<forall>k \<in> set ks. k = [] \<or> \<not> HasPrefix k (Type key @ '' '' @ enc (Marshal key))) \<longrightarrow>
            PublicKeyCallback enc bypass ks key = Inl (ErrorString ''Key not found'')))
   \<and> (bypass \<longrightarrow> (\<exists>perm. PublicKeyCallback enc bypass ks key = Inr perm))"
  by (auto simp: PublicKeyCallback_def Let_def keys_loop_iff)

theorem PublicKeyCallback_accepts_iff_match_witness:
  "PublicKeyCallback (\<lambda>b. ''AQID'') False
       ['''', ''ssh-rsa AAAA a@b'', ''ssh-ed25519 AQID rtr@host''] demo_key =
     Inr \<lparr>CriticalOptions = Map.empty, Extensions = Map.empty\<rparr>
   \<and> PublicKeyCallback (\<lambda>b. ''AQID'') False ['''', ''ssh-rsa AAAA a@b''] demo_key =
       Inl (ErrorString ''Key not found'')
   \<and> PublicKeyCallback (\<lambda>b. ''AQID'') True [] demo_key =
       Inr \<lparr>CriticalOptions = Map.empty, Extensions = Map.empty\<rparr>"
  using
    PublicKeyCallback_accepts_iff_match [of False "\<lambda>b. ''AQID''"
      "['''', ''ssh-rsa AAAA a@b'', ''ssh-ed25519 AQID rtr@host'']" demo_key]
    PublicKeyCallback_accepts_iff_match [of False "\<lambda>b. ''AQID''"
      "['''', ''ssh-rsa AAAA a@b'']" demo_key]
    PublicKeyCallback_accepts_iff_match [of True "\<lambda>b. ''AQID''" "[]" demo_key]
  by (simp add: demo_key_def HasPrefix_def PublicKeyCallback_def)

section \<open>Positional arguments end the process\<close>

text \<open>
  Claim C9. If the command line has a positional argument, \<open>run\<close> prints the
  diagnostic that names the program and the positional arguments, joined by spaces,
  and the process exits with status 2; whatever the flags, the server and the fetches
  would have been, nothing else is done.
\<close>

theorem run_rejects_positional_arguments:
  "args \<noteq> [] \<Longrightarrow>
     run L F prog args AppVersion srv tk0 tks =
       Exited (prog @ '': illegal positional argument(s) provided ('' @ [CHR 0x22]
                 @ Join args '' '' @ [CHR 0x22]
                 @ '') - did you mean to provide a flag?'' @ [CHR 0x0A]) 2"
  by (simp add: run_def run_args_def)

theorem run_rejects_positional_arguments_witness:
  "run demo_env demo_flags ''stayrtr'' [''foo'', ''bar''] ''StayRTR'' demo_server0
       (tick_of [1] t_2021) [] =
     Exited (''stayrtr: illegal positional argument(s) provided ('' @ [CHR 0x22]
               @ ''foo bar'' @ [CHR 0x22]
               @ '') - did you mean to provide a flag?'' @ [CHR 0x0A]) 2"
  using run_rejects_positional_arguments [of "[''foo'', ''bar'']" demo_env demo_flags
      "''stayrtr''" "''StayRTR''" demo_server0 "tick_of [1] t_2021" "[]"]
  by simp

section \<open>The bounds of an ingested record\<close>

lemma length_mask_bits: "length (mask_bits m) = 8 * length m"
  by (induction m) (simp_all add: mask_bits_def byte_bits_def)

lemma Size_cases:
  "Size m = (0, 0) \<or>
   (\<exists>k. Size m = (int k, int (length m) * 8) \<and> k \<le> 8 * length m)"
proof (cases "list_all Not (dropWhile id (mask_bits m))")
  case True
  have "length (takeWhile id (mask_bits m)) \<le> length (mask_bits m)"
    by (rule length_takeWhile_le)
  with True show ?thesis
    by (simp add: Size_def length_mask_bits)
next
  case False
  then show ?thesis by (simp add: Size_def)
qed

lemma uint_uint8: "0 \<le> n \<Longrightarrow> n < 256 \<Longrightarrow> uint (uint8 n) = n"
  by (simp add: uint8_def uint_word_of_int)

lemma isValidPrefixLength_in_bounds:
  assumes "length (Mask p) = 4 \<or> length (Mask p) = 16"
  shows "isValidPrefixLength p len = in_bounds p len"
proof -
  from Size_cases [of "Mask p"] show ?thesis
  proof
    assume "Size (Mask p) = (0, 0)"
    then show ?thesis
      by (simp add: isValidPrefixLength_def in_bounds_def network_length_def)
  next
    assume "\<exists>k. Size (Mask p) = (int k, int (length (Mask p)) * 8) \<and> k \<le> 8 * length (Mask p)"
    then obtain k where sz: "Size (Mask p) = (int k, int (length (Mask p)) * 8)"
      and k: "k \<le> 8 * length (Mask p)" by blast
    from assms k have k256: "int k < 256" by auto
    from assms have w: "int (length (Mask p)) * 8 = mask_width p"
      by (auto simp: mask_width_def)
    from assms have w256: "mask_width p < 256" "0 \<le> mask_width p"
      by (auto simp: mask_width_def)
    have a: "uint (uint8 (int k)) = int k"
      using k256 by (simp add: uint_uint8)
    have b: "uint (uint8 (mask_width p)) = mask_width p"
      using w256 by (simp add: uint_uint8)
    show ?thesis
      using a b
      by (auto simp: isValidPrefixLength_def in_bounds_def network_length_def sz w
          word_less_def)
  qed
qed

lemma Size_width:
  assumes "length (Mask p) = 4 \<or> length (Mask p) = 16" and "0 < network_length p"
  shows "snd (Size (Mask p)) = mask_width p"
  using assms Size_cases [of "Mask p"]
  by (auto simp: network_length_def mask_width_def)

lemma ingest_accepted:
  assumes "case GetPrefix2 L v of Inl err \<Rightarrow> True
           | Inr prefix \<Rightarrow> length (Mask prefix) = 4 \<or> length (Mask prefix) = 16"
  shows "ingest L v =
           (if accepted L v
            then Some \<lparr>Prefix = projr (GetPrefix2 L v), ASN = projr (GetASN2 L v),
                       MaxLen = Length v\<rparr>
            else None)"
  using assms
  by (auto simp: ingest_def accepted_def isValidPrefixLength_in_bounds split: sum.splits)

lemma valid_vrps_filter:
  "\<forall>v \<in> set vs. \<not> P v \<longrightarrow> ingest L v = None \<Longrightarrow>
   valid_vrps L (filter P vs) = valid_vrps L vs"
proof (induction vs)
  case Nil
  show ?case by simp
next
  case (Cons v vs)
  then have IH: "valid_vrps L (filter P vs) = valid_vrps L vs" by simp
  from Cons.prems have "\<not> P v \<longrightarrow> ingest L v = None" by simp
  then show ?case
    by (cases "P v") (simp_all add: valid_vrps_Cons IH split: option.split)
qed

lemma valid_vrps_origin:
  "r \<in> set (valid_vrps L vs) \<Longrightarrow> \<exists>v \<in> set vs. ingest L v = Some r"
  by (induction vs) (auto simp: valid_vrps_Cons valid_vrps_Nil split: option.splits)

lemma pd_body_rejected: "ingest L v = None \<Longrightarrow> pd_body L v a = a"
  by (simp add: pd_body_ingest)

text \<open>
  What the check of \<open>isValidPrefixLength\<close> gives, when the prefixes \<open>GetPrefix2\<close>
  returns have masks of 4 or 16 bytes: every record \<open>processData\<close> returns has a
  non-zero network length that is at most its maximum length, which is at most the
  number of bits of its mask, 32 for a 4-byte mask and 128 for a 16-byte mask, the
  second number \<open>Size\<close> returns. Every record comes from an entry whose prefix and ASN
  parsed and that is within these bounds. Entries that fail to parse or are out of
  these bounds are rejected: the loop body leaves all its variables as they are, and
  the result is the one of the input with these entries removed.
\<close>

lemma processData_output_in_mask_bounds:
  "masks_4_or_16 L vs \<Longrightarrow> processData L vs = (out, tot, c4, c6) \<Longrightarrow>
     (\<forall>r \<in> set out.
        0 < network_length (Prefix r)
        \<and> network_length (Prefix r) \<le> uint (MaxLen r)
        \<and> uint (MaxLen r) \<le> mask_width (Prefix r)
        \<and> (length (Mask (Prefix r)) = 4 \<or> length (Mask (Prefix r)) = 16)
        \<and> snd (Size (Mask (Prefix r))) = mask_width (Prefix r)
        \<and> (\<exists>v \<in> set vs. accepted L v \<and> GetPrefix2 L v = Inr (Prefix r)
              \<and> GetASN2 L v = Inr (ASN r) \<and> Length v = MaxLen r))
   \<and> (\<forall>v \<in> set vs. \<not> accepted L v \<longrightarrow> (\<forall>a. pd_body L v a = a))
   \<and> processData L vs = processData L (filter (accepted L) vs)"
proof -
  assume masks: "masks_4_or_16 L vs" and run: "processData L vs = (out, tot, c4, c6)"
  have m: "case GetPrefix2 L v of Inl err \<Rightarrow> True
           | Inr prefix \<Rightarrow> length (Mask prefix) = 4 \<or> length (Mask prefix) = 16"
    if "v \<in> set vs" for v
    using masks that by (simp add: masks_4_or_16_def list_all_iff)
  have rej: "ingest L v = None" if "v \<in> set vs" "\<not> accepted L v" for v
    using that by (simp add: ingest_accepted [OF m])
  have out: "set out \<subseteq> set (valid_vrps L vs)"
    using run by (auto simp: processData_eq dest: first_by_key_subset [THEN subsetD])
  have each: "0 < network_length (Prefix r)
        \<and> network_length (Prefix r) \<le> uint (MaxLen r)
        \<and> uint (MaxLen r) \<le> mask_width (Prefix r)
        \<and> (length (Mask (Prefix r)) = 4 \<or> length (Mask (Prefix r)) = 16)
        \<and> snd (Size (Mask (Prefix r))) = mask_width (Prefix r)
        \<and> (\<exists>v \<in> set vs. accepted L v \<and> GetPrefix2 L v = Inr (Prefix r)
              \<and> GetASN2 L v = Inr (ASN r) \<and> Length v = MaxLen r)"
    if "r \<in> set out" for r
  proof -
    from that out obtain v where v: "v \<in> set vs" and iv: "ingest L v = Some r"
      by (blast dest: valid_vrps_origin)
    from iv have acc: "accepted L v"
      using ingest_accepted [OF m [OF v]] by (simp split: if_splits)
    from iv obtain p a where p: "GetPrefix2 L v = Inr p" and a: "GetASN2 L v = Inr a"
      and r: "r = \<lparr>Prefix = p, ASN = a, MaxLen = Length v\<rparr>"
      by (auto simp: ingest_def split: sum.splits if_splits)
    from acc p a have b: "in_bounds p (Length v)"
      by (simp add: accepted_def)
    from m [OF v] p have len: "length (Mask p) = 4 \<or> length (Mask p) = 16"
      by simp
    from b have pos: "0 < network_length p"
      by (simp add: in_bounds_def)
    have w: "snd (Size (Mask p)) = mask_width p"
      by (rule Size_width [OF len pos])
    from v acc p a b len w show ?thesis
      unfolding r by (auto simp: in_bounds_def)
  qed
  have body: "\<forall>a. pd_body L v a = a" if "v \<in> set vs" "\<not> accepted L v" for v
    using rej [OF that] by (simp add: pd_body_rejected)
  have filt: "processData L vs = processData L (filter (accepted L) vs)"
    using rej by (simp add: processData_eq valid_vrps_filter)
  from each body filt show ?thesis by blast
qed

lemma Size_mask_v6_32:
  "Size [255, 255, 255, 255, 0, 0, 0, 0, 0, 0, 0, 0, 0, 0, 0, 0] = (32, 128)"
  by (simp add: Size_def mask_bits_def byte_bits_def)

lemma demo_ingest_v6:
  "ingest demo_env (entry ''2001:db8::/32'' ''AS2'' 48) =
     Some \<lparr>Prefix = net_2001_db8_32, ASN = 2, MaxLen = 48\<rparr>"
  by (simp add: ingest_def demo_env_def demo_GetPrefix2_def demo_GetASN2_def entry_def
      isValidPrefixLength_def Size_mask_v6_32 net_2001_db8_32_def uint8_def)

lemma demo_ingest_rejects:
  "ingest demo_env (entry ''10.0.0.0/24'' ''AS1'' 16) = None"
  "ingest demo_env (entry ''10.0.0.0/24'' ''AS1'' 33) = None"
  "ingest demo_env (entry ''10.0.0.0/33'' ''AS1'' 24) = None"
  "ingest demo_env (entry ''10.0.0.0/24'' ''ASx'' 24) = None"
  by (simp_all add: ingest_def demo_env_def demo_GetPrefix2_def demo_GetASN2_def entry_def
      isValidPrefixLength_def Size_mask24 net_10_0_0_0_24_def uint8_def)

lemma demo_masks:
  "masks_4_or_16 demo_env
     [entry ''10.0.0.0/24'' ''AS1'' 24, entry ''10.0.0.0/24'' ''AS1'' 16,
      entry ''10.0.0.0/24'' ''AS1'' 33, entry ''10.0.0.0/33'' ''AS1'' 24,
      entry ''10.0.0.0/24'' ''ASx'' 24, entry ''2001:db8::/32'' ''AS2'' 48]"
  by (simp add: masks_4_or_16_def demo_env_def demo_GetPrefix2_def entry_def
      net_10_0_0_0_24_def net_2001_db8_32_def)

lemma demo_key_v6:
  "vrp_key demo_env \<lparr>Prefix = net_2001_db8_32, ASN = 2, MaxLen = 48\<rparr> =
     ''2001:db8::/32,2,48''"
proof -
  have "decimal (unat (2 :: 32 word)) = ''2''" "decimal (unat (48 :: byte)) = ''48''"
    by code_simp+
  then show ?thesis
    by (simp add: vrp_key_def dup_key_def demo_env_def demo_String_def
        net_2001_db8_32_def net_10_0_0_0_24_def)
qed

lemma demo_processData_mixed:
  "processData demo_env
     [entry ''10.0.0.0/24'' ''AS1'' 24, entry ''10.0.0.0/24'' ''AS1'' 16,
      entry ''10.0.0.0/24'' ''AS1'' 33, entry ''10.0.0.0/33'' ''AS1'' 24,
      entry ''10.0.0.0/24'' ''ASx'' 24, entry ''2001:db8::/32'' ''AS2'' 48] =
     ([\<lparr>Prefix = net_10_0_0_0_24, ASN = 1, MaxLen = 24\<rparr>,
       \<lparr>Prefix = net_2001_db8_32, ASN = 2, MaxLen = 48\<rparr>], 2, 1, 1)"
proof -
  have v6: "\<not> is_v4 \<lparr>Prefix = net_2001_db8_32, ASN = 2, MaxLen = 48\<rparr>"
    by (simp add: is_v4_def To4_def net_2001_db8_32_def)
  show ?thesis
    by (simp add: processData_eq valid_vrps_Cons valid_vrps_Nil demo_ingest_v4
        demo_ingest_v6 demo_ingest_rejects demo_key_v4 demo_key_v6 is_v4_demo v6)
qed

lemma processData_output_in_mask_bounds_example:
  "masks_4_or_16 demo_env
     [entry ''10.0.0.0/24'' ''AS1'' 24, entry ''10.0.0.0/24'' ''AS1'' 16,
      entry ''10.0.0.0/24'' ''AS1'' 33, entry ''10.0.0.0/33'' ''AS1'' 24,
      entry ''10.0.0.0/24'' ''ASx'' 24, entry ''2001:db8::/32'' ''AS2'' 48]
   \<and> processData demo_env
     [entry ''10.0.0.0/24'' ''AS1'' 24, entry ''10.0.0.0/24'' ''AS1'' 16,
      entry ''10.0.0.0/24'' ''AS1'' 33, entry ''10.0.0.0/33'' ''AS1'' 24,
      entry ''10.0.0.0/24'' ''ASx'' 24, entry ''2001:db8::/32'' ''AS2'' 48] =
     ([\<lparr>Prefix = net_10_0_0_0_24, ASN = 1, MaxLen = 24\<rparr>,
       \<lparr>Prefix = net_2001_db8_32, ASN = 2, MaxLen = 48\<rparr>], 2, 1, 1)
   \<and> 0 < network_length net_10_0_0_0_24 \<and> network_length net_10_0_0_0_24 \<le> 24
   \<and> 24 \<le> mask_width net_10_0_0_0_24
   \<and> 0 < network_length net_2001_db8_32 \<and> network_length net_2001_db8_32 \<le> 48
   \<and> 48 \<le> mask_width net_2001_db8_32
   \<and> pd_body demo_env (entry ''10.0.0.0/24'' ''AS1'' 16)
        \<lparr>filterDuplicates = Map.empty, vrplist = [], countv4 = 0, countv6 = 0\<rparr> =
      \<lparr>filterDuplicates = Map.empty, vrplist = [], countv4 = 0, countv6 = 0\<rparr>"
proof -
  note t = processData_output_in_mask_bounds [OF demo_masks demo_processData_mixed]
  from t have b: "\<forall>r \<in> set [\<lparr>Prefix = net_10_0_0_0_24, ASN = 1, MaxLen = 24\<rparr>,
       \<lparr>Prefix = net_2001_db8_32, ASN = 2, MaxLen = 48\<rparr>].
        0 < network_length (Prefix r)
        \<and> network_length (Prefix r) \<le> uint (MaxLen r)
        \<and> uint (MaxLen r) \<le> mask_width (Prefix r)"
    by blast
  have rej: "\<not> accepted demo_env (entry ''10.0.0.0/24'' ''AS1'' 16)"
    by (simp add: accepted_def demo_env_def demo_GetPrefix2_def demo_GetASN2_def entry_def
        in_bounds_def network_length_def net_10_0_0_0_24_def Size_mask24)
  from t rej have body: "pd_body demo_env (entry ''10.0.0.0/24'' ''AS1'' 16)
        \<lparr>filterDuplicates = Map.empty, vrplist = [], countv4 = 0, countv6 = 0\<rparr> =
      \<lparr>filterDuplicates = Map.empty, vrplist = [], countv4 = 0, countv6 = 0\<rparr>"
    by simp
  from b body demo_masks demo_processData_mixed show ?thesis
    by simp
qed

text \<open>
  The number of bits of the mask is the width of the family the code counts the record
  in, unless the record is counted as IPv4 (\<open>IP.To4\<close> is not nil) with a 16-byte
  mask: an IPv4-mapped IPv6 prefix.
\<close>

lemma processData_in_family_bounds_unless_mapped:
  assumes "masks_4_or_16 L vs" and "processData L vs = (out, tot, c4, c6)"
    and "r \<in> set out" and "is_v4 r \<longrightarrow> length (Mask (Prefix r)) = 4"
  shows "0 < network_length (Prefix r) \<and> network_length (Prefix r) \<le> uint (MaxLen r)
         \<and> uint (MaxLen r) \<le> family_width (Prefix r)"
proof -
  from processData_output_in_mask_bounds [OF assms(1,2)] assms(3)
  have b: "0 < network_length (Prefix r)" "network_length (Prefix r) \<le> uint (MaxLen r)"
    "uint (MaxLen r) \<le> mask_width (Prefix r)"
    by blast+
  from assms(4) have "mask_width (Prefix r) \<le> family_width (Prefix r)"
    by (simp add: mask_width_def family_width_def is_v4_def)
  with b show ?thesis by simp
qed

lemma Size_mask_mapped_120: "Size (Mask net_mapped_10_0_0_0_120) = (120, 128)"
  by (simp add: Size_def mask_bits_def byte_bits_def net_mapped_10_0_0_0_120_def)

lemma To4_mapped: "To4 (IP net_mapped_10_0_0_0_120) = Some [10, 0, 0, 0]"
  by (simp add: To4_def net_mapped_10_0_0_0_120_def eval_nat_numeral)

lemma demo_GetPrefix2_mapped:
  "GetPrefix2 demo_env (entry ''::ffff:10.0.0.0/120'' ''AS1'' 120) =
     Inr net_mapped_10_0_0_0_120"
  by (simp add: demo_env_def demo_GetPrefix2_def entry_def)

lemma isValidPrefixLength_mapped: "isValidPrefixLength net_mapped_10_0_0_0_120 120"
  by (simp add: isValidPrefixLength_def Size_mask_mapped_120 uint8_def)

lemma demo_ingest_mapped:
  "ingest demo_env (entry ''::ffff:10.0.0.0/120'' ''AS1'' 120) =
     Some \<lparr>Prefix = net_mapped_10_0_0_0_120, ASN = 1, MaxLen = 120\<rparr>"
  by (simp add: ingest_def demo_env_def demo_GetPrefix2_def demo_GetASN2_def entry_def
      isValidPrefixLength_mapped)

text \<open>
  Claim C2 does not hold of the code. The entry with the prefix ::ffff:10.0.0.0/120,
  the ASN AS1 and the maximum length 120 is accepted: \<open>isValidPrefixLength\<close> compares
  the maximum length with the number of bits of the mask, 128 for the 16-byte mask of
  this prefix. The record \<open>processData\<close> returns for it is counted as IPv4, because
  \<open>IP.To4\<close> of its address is not nil, and its network length and maximum length, 120,
  exceed the 32 bits of that family.
\<close>

theorem processData_accepts_mapped_prefix_beyond_32_bits:
  "GetPrefix2 demo_env (entry ''::ffff:10.0.0.0/120'' ''AS1'' 120) =
     Inr net_mapped_10_0_0_0_120
   \<and> Size (Mask net_mapped_10_0_0_0_120) = (120, 128)
   \<and> isValidPrefixLength net_mapped_10_0_0_0_120 120
   \<and> To4 (IP net_mapped_10_0_0_0_120) = Some [10, 0, 0, 0]
   \<and> processData demo_env [entry ''::ffff:10.0.0.0/120'' ''AS1'' 120] =
       ([\<lparr>Prefix = net_mapped_10_0_0_0_120, ASN = 1, MaxLen = 120\<rparr>], 1, 1, 0)
   \<and> is_v4 \<lparr>Prefix = net_mapped_10_0_0_0_120, ASN = 1, MaxLen = 120\<rparr>
   \<and> family_width net_mapped_10_0_0_0_120 = 32
   \<and> network_length net_mapped_10_0_0_0_120 = 120
   \<and> uint (MaxLen \<lparr>Prefix = net_mapped_10_0_0_0_120, ASN = 1, MaxLen = 120\<rparr>) = 120
   \<and> \<not> uint (MaxLen \<lparr>Prefix = net_mapped_10_0_0_0_120, ASN = 1, MaxLen = 120\<rparr>)
          \<le> family_width (Prefix \<lparr>Prefix = net_mapped_10_0_0_0_120, ASN = 1, MaxLen = 120\<rparr>)"
proof -
  have v4: "is_v4 \<lparr>Prefix = net_mapped_10_0_0_0_120, ASN = 1, MaxLen = 120\<rparr>"
    by (simp add: is_v4_def To4_mapped)
  have p: "processData demo_env [entry ''::ffff:10.0.0.0/120'' ''AS1'' 120] =
       ([\<lparr>Prefix = net_mapped_10_0_0_0_120, ASN = 1, MaxLen = 120\<rparr>], 1, 1, 0)"
    by (simp add: processData_eq valid_vrps_Cons valid_vrps_Nil demo_ingest_mapped v4)
  have w: "family_width net_mapped_10_0_0_0_120 = 32"
    by (simp add: family_width_def To4_mapped)
  have n: "network_length net_mapped_10_0_0_0_120 = 120"
    by (simp add: network_length_def Size_mask_mapped_120)
  have u: "uint (MaxLen \<lparr>Prefix = net_mapped_10_0_0_0_120, ASN = 1, MaxLen = 120\<rparr>) = 120"
    by simp
  have x: "\<not> uint (MaxLen \<lparr>Prefix = net_mapped_10_0_0_0_120, ASN = 1, MaxLen = 120\<rparr>)
          \<le> family_width (Prefix \<lparr>Prefix = net_mapped_10_0_0_0_120, ASN = 1, MaxLen = 120\<rparr>)"
    by (simp add: w)
  from demo_GetPrefix2_mapped Size_mask_mapped_120 isValidPrefixLength_mapped To4_mapped
    p v4 w n u x
  show ?thesis by (intro conjI)
qed

section \<open>updateFromNewState: the early returns\<close>

lemma updateFromNewState_no_data:
  "Data (lastdata s) = None \<Longrightarrow> updateFromNewState L now s = (None, s)"
  by (simp add: updateFromNewState_def)

lemma updateFromNewState_rejected:
  "Data (lastdata s) = Some d \<Longrightarrow> check_buildtime L now s = Some e \<Longrightarrow>
     updateFromNewState L now s = (Some e, s)"
  by (simp add: updateFromNewState_def)

lemma updateFromNewState_installs:
  assumes "Data (lastdata s) = Some d" and "check_buildtime L now s = None"
  shows "updateFromNewState L now s =
           (None,
            s\<lparr>server :=
                 (if sendNotifs s
                  then NotifyClientsLatest L
                         (AddVRPs L (fst (processData L (apply_slurm L (slurm s) d))) (server s))
                  else AddVRPs L (fst (processData L (apply_slurm L (slurm s) d))) (server s)),
               exported :=
                 \<lparr>Metadata = \<lparr>Counts = int (length (apply_slurm L (slurm s) d)),
                                Buildtime = Buildtime (Metadata (lastdata s))\<rparr>,
                  Data = Some (apply_slurm L (slurm s) d)\<rparr>,
               prom :=
                 (case metricsEvent s of
                    None \<Rightarrow> prom s
                  | Some m \<Rightarrow>
                      (case processData L (apply_slurm L (slurm s) d) of
                         (vrps, count, c4, c6) \<Rightarrow>
                           (case count_dup vrps (0, 0) of
                              (d4, d6) \<Rightarrow>
                                UpdateMetrics c4 c6 d4 d6 (lastchange s) (lastts s) (CacheBin L)
                                  (prom s))))\<rparr>)"
  using assms
  by (simp add: updateFromNewState_def Let_def split: prod.split option.split)

lemma updateFromNewState_error_frame:
  "updateFromNewState L now s = (Some e, s') \<Longrightarrow> s' = s"
  by (auto simp: updateFromNewState_def Let_def split: option.splits prod.splits)

lemma updateFromNewState_keeps:
  "lastdata (snd (updateFromNewState L now s)) = lastdata s"
  "lasthash (snd (updateFromNewState L now s)) = lasthash s"
  "lastchange (snd (updateFromNewState L now s)) = lastchange s"
  "lastts (snd (updateFromNewState L now s)) = lastts s"
  "slurm (snd (updateFromNewState L now s)) = slurm s"
  by (simp_all add: updateFromNewState_def Let_def split: option.split prod.split)

text \<open>
  Claim C10. If the \<open>Data\<close> of the last decoded document is nil,
  \<open>updateFromNewState\<close> returns nil and the state as it was: the server, the
  exported value and the collectors included, whatever the server's methods do. So
  when the first fetch of a process fails, the first synchronisation leaves the
  server and the exported value as \<open>run\<close> created them.
\<close>

theorem updateFromNewState_without_data_is_noop:
  "Data (lastdata s) = None \<Longrightarrow>
     updateFromNewState L now s = (None, s)
   \<and> (\<forall>srv me sn tc tk e.
         snd (snd (snd (fileFetch tk))) = Some e \<longrightarrow>
           run_sync L [] tk (new_state srv me sn tc) =
             (new_state srv me sn tc)\<lparr>lastts := fileNow tk\<rparr>)"
  by (auto simp: updateFromNewState_no_data run_sync_def updateFile_def new_state_def
      new_VRPList_def Let_def split: prod.split)

theorem updateFromNewState_without_data_is_noop_witness:
  "updateFromNewState demo_env t_2021 demo_state = (None, demo_state)
   \<and> server (run_sync demo_env []
        (tick_failing t_2021)
        demo_state) = demo_server0
   \<and> exported (run_sync demo_env []
        (tick_failing t_2021)
        demo_state) = new_VRPList"
proof -
  have d: "Data (lastdata demo_state) = None"
    by (simp add: demo_state_def new_state_def new_VRPList_def)
  from updateFromNewState_without_data_is_noop [OF d, of demo_env t_2021]
  show ?thesis
    by (simp add: demo_state_def new_state_def tick_failing_def)
qed

section \<open>updateFromNewState: stale documents, SLURM and the exported value\<close>

lemma check_buildtime_stale:
  "checktime s \<Longrightarrow> stale_or_unparsable L now s \<Longrightarrow> \<exists>e. check_buildtime L now s = Some e"
  by (auto simp: check_buildtime_def stale_or_unparsable_def Let_def split: sum.splits)

lemma demo_fetched_no_roas:
  "demo_fetched [2] now =
     demo_state\<lparr>lastts := now,
       prom := new_collectors\<lparr>
         LastRefresh := [CacheBin demo_env \<mapsto> go_div (UnixNano now) 1000000000],
         RefreshStatusCode := (\<lambda>k. 0)((CacheBin demo_env, 200) := Suc 0)\<rparr>,
       lasthash := Some [2], lastchange := now, lastdata := doc_no_roas\<rparr>"
  by (simp add: demo_fetched_def updateFile_def note_fetch_def newSHA256_def decodeJSON_def
      demo_env_def demo_Decode_def demo_state_def new_state_def new_collectors_def Let_def)

lemma demo_fetched_no_roas_fields:
  "lastdata (demo_fetched [2] now) = doc_no_roas"
  "exported (demo_fetched [2] now) = new_VRPList"
  "checktime (demo_fetched [2] now)"
  "server (demo_fetched [2] now) = demo_server0"
  by (simp_all add: demo_fetched_no_roas) (simp_all add: demo_state_def new_state_def)

text \<open>
  Claim C4, as stated, fails when the decoded document has no \<open>Data\<close>: the process
  fetches a document without the key \<open>roas\<close> whose build time is 25 hours old, with
  \<open>checktime\<close> on, and \<open>updateFromNewState\<close> returns nil, not an error.
\<close>

theorem stale_document_without_data_returns_nil:
  "checktime (demo_fetched [2] (t_2021 + 25 * Hour))
   \<and> stale_or_unparsable demo_env (t_2021 + 25 * Hour) (demo_fetched [2] (t_2021 + 25 * Hour))
   \<and> updateFromNewState demo_env (t_2021 + 25 * Hour) (demo_fetched [2] (t_2021 + 25 * Hour)) =
       (None, demo_fetched [2] (t_2021 + 25 * Hour))"
proof -
  let ?s = "demo_fetched [2] (t_2021 + 25 * Hour)"
  have n: "Data (lastdata ?s) = None"
    by (simp add: demo_fetched_no_roas_fields doc_no_roas_def)
  have st: "stale_or_unparsable demo_env (t_2021 + 25 * Hour) ?s"
    unfolding stale_or_unparsable_def demo_fetched_no_roas_fields
    by (simp add: doc_no_roas_def demo_env_def demo_Parse_def Hour_def)
  from st updateFromNewState_no_data [OF n] show ?thesis
    by (simp add: demo_fetched_no_roas_fields)
qed

text \<open>
  Claim C4, amended. If \<open>checktime\<close> is on, the last decoded document has a \<open>Data\<close>
  that is not nil, and its build time does not parse or is more than 24 hours old,
  then \<open>updateFromNewState\<close> returns an error and the state as it was: nothing is
  added to the server, no notification is sent, the exported value and the collectors
  are untouched. With a nil \<open>Data\<close> it returns nil, and the state is as it was, too.
\<close>

theorem stale_document_rejected:
  "checktime s \<Longrightarrow> stale_or_unparsable L now s \<Longrightarrow>
     (Data (lastdata s) \<noteq> None \<longrightarrow> (\<exists>e. updateFromNewState L now s = (Some e, s)))
   \<and> (Data (lastdata s) = None \<longrightarrow> updateFromNewState L now s = (None, s))"
proof -
  assume c: "checktime s" and st: "stale_or_unparsable L now s"
  from check_buildtime_stale [OF c st] obtain e where e: "check_buildtime L now s = Some e"
    by blast
  show ?thesis
    using e by (auto simp: updateFromNewState_no_data updateFromNewState_rejected)
qed

theorem stale_document_rejected_witness:
  "checktime (demo_state\<lparr>lastdata := doc_dedup\<rparr>)
   \<and> stale_or_unparsable demo_env (t_2021 + 25 * Hour) (demo_state\<lparr>lastdata := doc_dedup\<rparr>)
   \<and> updateFromNewState demo_env (t_2021 + 25 * Hour) (demo_state\<lparr>lastdata := doc_dedup\<rparr>) =
       (Some (ErrorString ''VRP JSON file is older than 24 hours''),
        demo_state\<lparr>lastdata := doc_dedup\<rparr>)
   \<and> stale_or_unparsable demo_env t_2021 (demo_state\<lparr>lastdata := doc_bad_time\<rparr>)
   \<and> updateFromNewState demo_env t_2021 (demo_state\<lparr>lastdata := doc_bad_time\<rparr>) =
       (Some (ErrorString ''cannot parse time''), demo_state\<lparr>lastdata := doc_bad_time\<rparr>)"
proof -
  have c: "checktime (demo_state\<lparr>lastdata := d\<rparr>)" for d
    by (simp add: demo_state_def new_state_def)
  have s1: "stale_or_unparsable demo_env (t_2021 + 25 * Hour) (demo_state\<lparr>lastdata := doc_dedup\<rparr>)"
    by (simp add: stale_or_unparsable_def demo_env_def demo_Parse_def doc_dedup_def Hour_def)
  have s2: "stale_or_unparsable demo_env t_2021 (demo_state\<lparr>lastdata := doc_bad_time\<rparr>)"
    by (simp add: stale_or_unparsable_def demo_env_def demo_Parse_def doc_bad_time_def)
  have e1: "check_buildtime demo_env (t_2021 + 25 * Hour) (demo_state\<lparr>lastdata := doc_dedup\<rparr>) =
              Some (ErrorString ''VRP JSON file is older than 24 hours'')"
    by (simp add: check_buildtime_def c demo_env_def demo_Parse_def doc_dedup_def Hour_def)
  have e2: "check_buildtime demo_env t_2021 (demo_state\<lparr>lastdata := doc_bad_time\<rparr>) =
              Some (ErrorString ''cannot parse time'')"
    by (simp add: check_buildtime_def c demo_env_def demo_Parse_def doc_bad_time_def)
  have d1: "Data (lastdata (demo_state\<lparr>lastdata := doc_dedup\<rparr>)) \<noteq> None"
    and d2: "Data (lastdata (demo_state\<lparr>lastdata := doc_bad_time\<rparr>)) \<noteq> None"
    by (simp_all add: doc_dedup_def doc_bad_time_def)
  from stale_document_rejected [OF c s1] stale_document_rejected [OF c s2] d1 d2
  have "\<exists>e. updateFromNewState demo_env (t_2021 + 25 * Hour) (demo_state\<lparr>lastdata := doc_dedup\<rparr>) =
           (Some e, demo_state\<lparr>lastdata := doc_dedup\<rparr>)"
    and "\<exists>e. updateFromNewState demo_env t_2021 (demo_state\<lparr>lastdata := doc_bad_time\<rparr>) =
           (Some e, demo_state\<lparr>lastdata := doc_bad_time\<rparr>)"
    by blast+
  then show ?thesis
    using c s1 s2 e1 e2 by (auto simp: updateFromNewState_def split: option.splits)
qed

text \<open>
  Claim C7, as stated, fails for the run that returns nil because \<open>Data\<close> is nil:
  after the fetch of a document without the key \<open>roas\<close>, \<open>updateFromNewState\<close>
  returns nil and the exported value is still the one \<open>run\<close> created, whose build
  time is not the one of the fetched document.
\<close>

theorem export_not_written_without_data:
  "fst (updateFromNewState demo_env t_2021 (demo_fetched [2] t_2021)) = None
   \<and> Buildtime (Metadata (lastdata (demo_fetched [2] t_2021))) = ''2021-01-01T00:00:00Z''
   \<and> Buildtime (Metadata (exported
         (snd (updateFromNewState demo_env t_2021 (demo_fetched [2] t_2021))))) = []"
proof -
  have n: "Data (lastdata (demo_fetched [2] t_2021)) = None"
    by (simp add: demo_fetched_no_roas_fields doc_no_roas_def)
  show ?thesis
    unfolding updateFromNewState_no_data [OF n]
    by (simp add: demo_fetched_no_roas_fields doc_no_roas_def new_VRPList_def)
qed

text \<open>
  Claim C7, amended. After every run of \<open>updateFromNewState\<close> that returns nil on a
  decoded document whose \<open>Data\<close> is not nil, the exported value has as \<open>Data\<close> the
  list after SLURM (the decoded list when no SLURM configuration is loaded, the kept
  entries followed by the asserted ones otherwise), as \<open>Counts\<close> the length of that
  list, before validation and deduplication, and as \<open>Buildtime\<close> the one of the
  decoded document; the export handler encodes exactly this value.
\<close>

theorem exported_is_post_slurm_list:
  "Data (lastdata s) = Some d \<Longrightarrow> updateFromNewState L now s = (None, s') \<Longrightarrow>
     exported s' =
       \<lparr>Metadata = \<lparr>Counts = int (length (apply_slurm L (slurm s) d)),
                      Buildtime = Buildtime (Metadata (lastdata s))\<rparr>,
        Data = Some (apply_slurm L (slurm s) d)\<rparr>
   \<and> exporter Encode s' = Encode (exported s')
   \<and> (slurm s = None \<longrightarrow> apply_slurm L (slurm s) d = d)
   \<and> (\<forall>c. slurm s = Some c \<longrightarrow>
         apply_slurm L (slurm s) d = fst (FilterOnVRPs L c d) @ AssertVRPs L c)"
proof -
  assume d: "Data (lastdata s) = Some d" and run: "updateFromNewState L now s = (None, s')"
  have chk: "check_buildtime L now s = None"
  proof (cases "check_buildtime L now s")
    case None
    then show ?thesis .
  next
    case (Some e)
    with d run show ?thesis by (simp add: updateFromNewState_rejected)
  qed
  from run have "exported s' =
       \<lparr>Metadata = \<lparr>Counts = int (length (apply_slurm L (slurm s) d)),
                      Buildtime = Buildtime (Metadata (lastdata s))\<rparr>,
        Data = Some (apply_slurm L (slurm s) d)\<rparr>"
    unfolding updateFromNewState_installs [OF d chk] by auto
  then show ?thesis
    by (auto simp: exporter_def apply_slurm_def Let_def split: prod.split)
qed

lemma demo_dedup_state:
  "Data (lastdata (demo_loaded doc_dedup)) =
     Some [entry ''10.0.0.0/24'' ''AS1'' 24, entry ''10.0.0.0/24'' ''AS1'' 24,
           entry ''10.0.0.0/24'' ''AS1'' 25]"
  "check_buildtime demo_env t_2021 (demo_loaded doc_dedup) = None"
  "slurm (demo_loaded doc_dedup) = None"
  "sendNotifs (demo_loaded doc_dedup)"
  "server (demo_loaded doc_dedup) = demo_server0"
  "Buildtime (Metadata (lastdata (demo_loaded doc_dedup))) =
     ''2021-01-01T00:00:00Z''"
  by (simp_all add: demo_loaded_def doc_dedup_def check_buildtime_def demo_state_def
      new_state_def demo_env_def demo_Parse_def Hour_def)

lemma demo_slurm_only_fields:
  "slurm demo_slurm_only = Some demo_slurm_cfg"
  "lastdata demo_slurm_only = new_VRPList"
  "exported demo_slurm_only = new_VRPList"
  "server demo_slurm_only = demo_server0"
  by (simp_all add: demo_slurm_only_def run_sync_def tick_slurm_only_def updateFile_def
      updateSlurm_def note_fetch_def updateFromNewState_def demo_env_def demo_state_def
      new_state_def new_VRPList_def Let_def)

text \<open>
  Claim C3, as stated, fails when a SLURM configuration is loaded while the \<open>Data\<close> of
  the last decoded document is nil. In the first synchronisation of this process the
  fetch of the cache fails and the SLURM file is loaded; its configuration asserts one
  entry. \<open>updateFromNewState\<close> returns nil and leaves the state as it is: the kept
  entries followed by the asserted ones are the asserted entry, but nothing is
  exported and nothing is added to the server.
\<close>

theorem slurm_not_applied_without_data:
  "slurm demo_slurm_only = Some demo_slurm_cfg
   \<and> Data (lastdata demo_slurm_only) = None
   \<and> fst (FilterOnVRPs demo_env demo_slurm_cfg []) @ AssertVRPs demo_env demo_slurm_cfg =
       [entry ''10.0.0.0/24'' ''AS2'' 24]
   \<and> updateFromNewState demo_env t_2021 demo_slurm_only = (None, demo_slurm_only)
   \<and> Data (exported demo_slurm_only) = None
   \<and> installed (server demo_slurm_only) = []"
proof -
  have n: "Data (lastdata demo_slurm_only) = None"
    by (simp add: demo_slurm_only_fields new_VRPList_def)
  have l: "fst (FilterOnVRPs demo_env demo_slurm_cfg []) @ AssertVRPs demo_env demo_slurm_cfg =
       [entry ''10.0.0.0/24'' ''AS2'' 24]"
    by (simp add: demo_env_def demo_FilterOnVRPs_def demo_slurm_cfg_def)
  have e: "Data (exported demo_slurm_only) = None"
    by (simp add: demo_slurm_only_fields new_VRPList_def)
  have i: "installed (server demo_slurm_only) = []"
    by (simp add: demo_slurm_only_fields demo_server0_def)
  from demo_slurm_only_fields(1) n l updateFromNewState_no_data [OF n] e i
  show ?thesis by (intro conjI)
qed

text \<open>
  Claim C3, amended. With a SLURM configuration loaded and a decoded document whose
  \<open>Data\<close> is not nil, \<open>updateFromNewState\<close> filters the decoded list, and nothing else,
  and appends the asserted entries to the kept ones: when it returns nil, the list it
  exported is the kept entries followed by the asserted entries, and the records it
  added to the server are those \<open>processData\<close> returns for that list; when it
  returns an error (the build time check), the state is as it was.
\<close>

theorem slurm_filters_then_asserts:
  "slurm s = Some c \<Longrightarrow> Data (lastdata s) = Some d \<Longrightarrow>
   FilterOnVRPs L c d = (kept, removed) \<Longrightarrow> updateFromNewState L now s = (r, s') \<Longrightarrow>
     (r = None \<longrightarrow>
        exported s' =
          \<lparr>Metadata = \<lparr>Counts = int (length (kept @ AssertVRPs L c)),
                         Buildtime = Buildtime (Metadata (lastdata s))\<rparr>,
           Data = Some (kept @ AssertVRPs L c)\<rparr>
        \<and> server s' =
            (if sendNotifs s
             then NotifyClientsLatest L
                    (AddVRPs L (fst (processData L (kept @ AssertVRPs L c))) (server s))
             else AddVRPs L (fst (processData L (kept @ AssertVRPs L c))) (server s)))
   \<and> (r \<noteq> None \<longrightarrow> s' = s)
   \<and> (r = None) = (check_buildtime L now s = None)"
proof -
  assume c: "slurm s = Some c" and d: "Data (lastdata s) = Some d"
    and f: "FilterOnVRPs L c d = (kept, removed)"
    and run: "updateFromNewState L now s = (r, s')"
  have a: "apply_slurm L (slurm s) d = kept @ AssertVRPs L c"
    by (simp add: apply_slurm_def c f)
  show ?thesis
  proof (cases "check_buildtime L now s")
    case None
    from run have r: "r = None"
      and s': "s' = snd (updateFromNewState L now s)"
      by (simp_all add: updateFromNewState_installs [OF d None])
    show ?thesis
      unfolding s' updateFromNewState_installs [OF d None] a
      by (simp add: r None)
  next
    case (Some e)
    from run have r: "r = Some e" and s': "s' = s"
      by (simp_all add: updateFromNewState_rejected [OF d Some])
    show ?thesis
      by (simp add: r s' Some)
  qed
qed

lemma demo_slurm_state_facts:
  "slurm demo_slurm_state = Some demo_slurm_cfg"
  "Data (lastdata demo_slurm_state) =
     Some [entry ''2001:db8::/32'' ''AS2'' 48, entry ''10.0.0.0/24'' ''AS1'' 24]"
  "check_buildtime demo_env t_2021 demo_slurm_state = None"
  "sendNotifs demo_slurm_state"
  "server demo_slurm_state = demo_server0"
  "Buildtime (Metadata (lastdata demo_slurm_state)) = ''2021-01-01T00:00:00Z''"
  by (simp_all add: demo_slurm_state_def doc_mixed_def check_buildtime_def demo_state_def
      new_state_def demo_env_def demo_Parse_def Hour_def)

lemma demo_filter:
  "FilterOnVRPs demo_env demo_slurm_cfg
     [entry ''2001:db8::/32'' ''AS2'' 48, entry ''10.0.0.0/24'' ''AS1'' 24] =
     ([entry ''2001:db8::/32'' ''AS2'' 48], [entry ''10.0.0.0/24'' ''AS1'' 24])"
  "AssertVRPs demo_env demo_slurm_cfg = [entry ''10.0.0.0/24'' ''AS2'' 24]"
  "FilterOnVRPs demo_env demo_slurm_cfg [entry ''10.0.0.0/24'' ''AS2'' 24] =
     ([], [entry ''10.0.0.0/24'' ''AS2'' 24])"
  by (simp_all add: demo_env_def demo_FilterOnVRPs_def demo_slurm_cfg_def entry_def)

lemma demo_processData_slurm:
  "processData demo_env [entry ''2001:db8::/32'' ''AS2'' 48, entry ''10.0.0.0/24'' ''AS2'' 24] =
     ([\<lparr>Prefix = net_2001_db8_32, ASN = 2, MaxLen = 48\<rparr>,
       \<lparr>Prefix = net_10_0_0_0_24, ASN = 2, MaxLen = 24\<rparr>], 2, 1, 1)"
proof -
  have i: "ingest demo_env (entry ''10.0.0.0/24'' ''AS2'' 24) =
             Some \<lparr>Prefix = net_10_0_0_0_24, ASN = 2, MaxLen = 24\<rparr>"
    by (simp add: ingest_def demo_env_def demo_GetPrefix2_def demo_GetASN2_def entry_def
        isValidPrefixLength_def Size_mask24 net_10_0_0_0_24_def uint8_def)
  have k: "vrp_key demo_env \<lparr>Prefix = net_10_0_0_0_24, ASN = 2, MaxLen = 24\<rparr> \<noteq>
             ''2001:db8::/32,2,48''"
    by (simp add: vrp_key_def dup_key_def demo_env_def demo_String_def)
  have v6: "\<not> is_v4 \<lparr>Prefix = net_2001_db8_32, ASN = 2, MaxLen = 48\<rparr>"
    by (simp add: is_v4_def To4_def net_2001_db8_32_def)
  show ?thesis
    using k
    by (simp add: processData_eq valid_vrps_Cons valid_vrps_Nil demo_ingest_v6 i demo_key_v6
        is_v4_demo v6)
qed

lemma demo_slurm_stale:
  "check_buildtime demo_env (t_2021 + 25 * Hour) demo_slurm_state =
     Some (ErrorString ''VRP JSON file is older than 24 hours'')"
  by (simp add: check_buildtime_def demo_slurm_state_def doc_mixed_def demo_state_def
      new_state_def demo_env_def demo_Parse_def Hour_def)

theorem slurm_filters_then_asserts_witness:
  "updateFromNewState demo_env t_2021 demo_slurm_state =
     (None, snd (updateFromNewState demo_env t_2021 demo_slurm_state))
   \<and> exported (snd (updateFromNewState demo_env t_2021 demo_slurm_state)) =
       \<lparr>Metadata = \<lparr>Counts = 2, Buildtime = ''2021-01-01T00:00:00Z''\<rparr>,
        Data = Some [entry ''2001:db8::/32'' ''AS2'' 48, entry ''10.0.0.0/24'' ''AS2'' 24]\<rparr>
   \<and> server (snd (updateFromNewState demo_env t_2021 demo_slurm_state)) =
       \<lparr>installed = [[\<lparr>Prefix = net_2001_db8_32, ASN = 2, MaxLen = 48\<rparr>,
                      \<lparr>Prefix = net_10_0_0_0_24, ASN = 2, MaxLen = 24\<rparr>]],
        notified = 1\<rparr>
   \<and> FilterOnVRPs demo_env demo_slurm_cfg (AssertVRPs demo_env demo_slurm_cfg) =
       ([], AssertVRPs demo_env demo_slurm_cfg)
   \<and> updateFromNewState demo_env (t_2021 + 25 * Hour) demo_slurm_state =
       (Some (ErrorString ''VRP JSON file is older than 24 hours''), demo_slurm_state)"
proof -
  have run: "updateFromNewState demo_env t_2021 demo_slurm_state =
               (None, snd (updateFromNewState demo_env t_2021 demo_slurm_state))"
    by (simp add: updateFromNewState_installs [OF demo_slurm_state_facts(2,3)])
  have run2: "updateFromNewState demo_env (t_2021 + 25 * Hour) demo_slurm_state =
       (Some (ErrorString ''VRP JSON file is older than 24 hours''),
        snd (updateFromNewState demo_env (t_2021 + 25 * Hour) demo_slurm_state))"
    by (simp add: updateFromNewState_rejected [OF demo_slurm_state_facts(2) demo_slurm_stale])
  from slurm_filters_then_asserts [OF demo_slurm_state_facts(1,2) demo_filter(1) run2]
  have same: "snd (updateFromNewState demo_env (t_2021 + 25 * Hour) demo_slurm_state) =
                demo_slurm_state"
    by simp
  from slurm_filters_then_asserts [OF demo_slurm_state_facts(1,2) demo_filter(1) run]
  have "exported (snd (updateFromNewState demo_env t_2021 demo_slurm_state)) =
          \<lparr>Metadata = \<lparr>Counts = int (length ([entry ''2001:db8::/32'' ''AS2'' 48]
                            @ AssertVRPs demo_env demo_slurm_cfg)),
                         Buildtime = Buildtime (Metadata (lastdata demo_slurm_state))\<rparr>,
           Data = Some ([entry ''2001:db8::/32'' ''AS2'' 48]
                          @ AssertVRPs demo_env demo_slurm_cfg)\<rparr>"
    and "server (snd (updateFromNewState demo_env t_2021 demo_slurm_state)) =
          NotifyClientsLatest demo_env
            (AddVRPs demo_env
               (fst (processData demo_env ([entry ''2001:db8::/32'' ''AS2'' 48]
                        @ AssertVRPs demo_env demo_slurm_cfg)))
               (server demo_slurm_state))"
    by (simp_all add: demo_slurm_state_facts(4))
  then have e: "exported (snd (updateFromNewState demo_env t_2021 demo_slurm_state)) =
       \<lparr>Metadata = \<lparr>Counts = 2, Buildtime = ''2021-01-01T00:00:00Z''\<rparr>,
        Data = Some [entry ''2001:db8::/32'' ''AS2'' 48, entry ''10.0.0.0/24'' ''AS2'' 24]\<rparr>"
    and v: "server (snd (updateFromNewState demo_env t_2021 demo_slurm_state)) =
       \<lparr>installed = [[\<lparr>Prefix = net_2001_db8_32, ASN = 2, MaxLen = 48\<rparr>,
                      \<lparr>Prefix = net_10_0_0_0_24, ASN = 2, MaxLen = 24\<rparr>]],
        notified = 1\<rparr>"
    by (simp_all add: demo_filter demo_slurm_state_facts demo_processData_slurm)
      (simp add: demo_env_def demo_server0_def)
  have f: "FilterOnVRPs demo_env demo_slurm_cfg (AssertVRPs demo_env demo_slurm_cfg) =
       ([], AssertVRPs demo_env demo_slurm_cfg)"
    by (simp add: demo_filter)
  from run2 same have r2: "updateFromNewState demo_env (t_2021 + 25 * Hour) demo_slurm_state =
       (Some (ErrorString ''VRP JSON file is older than 24 hours''), demo_slurm_state)"
    by simp
  from run e v f r2 show ?thesis
    by (intro conjI)
qed

theorem exported_is_post_slurm_list_witness:
  "fst (updateFromNewState demo_env t_2021 (demo_loaded doc_dedup)) = None
   \<and> exported (snd (updateFromNewState demo_env t_2021 (demo_loaded doc_dedup))) =
       \<lparr>Metadata = \<lparr>Counts = 3, Buildtime = ''2021-01-01T00:00:00Z''\<rparr>,
        Data = Some [entry ''10.0.0.0/24'' ''AS1'' 24, entry ''10.0.0.0/24'' ''AS1'' 24,
                     entry ''10.0.0.0/24'' ''AS1'' 25]\<rparr>
   \<and> installed (server
         (snd (updateFromNewState demo_env t_2021 (demo_loaded doc_dedup)))) =
       [[\<lparr>Prefix = net_10_0_0_0_24, ASN = 1, MaxLen = 24\<rparr>,
         \<lparr>Prefix = net_10_0_0_0_24, ASN = 1, MaxLen = 25\<rparr>]]
   \<and> exported (snd (updateFromNewState demo_env t_2021 demo_slurm_state)) =
       \<lparr>Metadata = \<lparr>Counts = 2, Buildtime = ''2021-01-01T00:00:00Z''\<rparr>,
        Data = Some [entry ''2001:db8::/32'' ''AS2'' 48, entry ''10.0.0.0/24'' ''AS2'' 24]\<rparr>"
proof -
  let ?s = "demo_loaded doc_dedup"
  note i = updateFromNewState_installs [OF demo_dedup_state(1) demo_dedup_state(2)]
  have run: "updateFromNewState demo_env t_2021 ?s =
               (None, snd (updateFromNewState demo_env t_2021 ?s))"
    by (simp add: i)
  have run2: "updateFromNewState demo_env t_2021 demo_slurm_state =
               (None, snd (updateFromNewState demo_env t_2021 demo_slurm_state))"
    by (simp add: updateFromNewState_installs [OF demo_slurm_state_facts(2,3)])
  have srv: "installed (server (snd (updateFromNewState demo_env t_2021 ?s))) =
       [[\<lparr>Prefix = net_10_0_0_0_24, ASN = 1, MaxLen = 24\<rparr>,
         \<lparr>Prefix = net_10_0_0_0_24, ASN = 1, MaxLen = 25\<rparr>]]"
    unfolding i
    by (simp add: demo_dedup_state apply_slurm_def demo_processData)
      (simp add: demo_env_def demo_server0_def)
  from exported_is_post_slurm_list [OF demo_dedup_state(1) run]
  have "exported (snd (updateFromNewState demo_env t_2021 ?s)) =
       \<lparr>Metadata = \<lparr>Counts = int (length (apply_slurm demo_env (slurm ?s)
                 [entry ''10.0.0.0/24'' ''AS1'' 24, entry ''10.0.0.0/24'' ''AS1'' 24,
                  entry ''10.0.0.0/24'' ''AS1'' 25])),
                      Buildtime = Buildtime (Metadata (lastdata ?s))\<rparr>,
        Data = Some (apply_slurm demo_env (slurm ?s)
                 [entry ''10.0.0.0/24'' ''AS1'' 24, entry ''10.0.0.0/24'' ''AS1'' 24,
                  entry ''10.0.0.0/24'' ''AS1'' 25])\<rparr>"
    by (rule conjunct1)
  then have e: "exported (snd (updateFromNewState demo_env t_2021 ?s)) =
       \<lparr>Metadata = \<lparr>Counts = 3, Buildtime = ''2021-01-01T00:00:00Z''\<rparr>,
        Data = Some [entry ''10.0.0.0/24'' ''AS1'' 24, entry ''10.0.0.0/24'' ''AS1'' 24,
                     entry ''10.0.0.0/24'' ''AS1'' 25]\<rparr>"
    by (simp add: demo_dedup_state(3,6) apply_slurm_def)
  from exported_is_post_slurm_list [OF demo_slurm_state_facts(2) run2]
  have "exported (snd (updateFromNewState demo_env t_2021 demo_slurm_state)) =
       \<lparr>Metadata = \<lparr>Counts = int (length (apply_slurm demo_env (slurm demo_slurm_state)
                 [entry ''2001:db8::/32'' ''AS2'' 48, entry ''10.0.0.0/24'' ''AS1'' 24])),
                      Buildtime = Buildtime (Metadata (lastdata demo_slurm_state))\<rparr>,
        Data = Some (apply_slurm demo_env (slurm demo_slurm_state)
                 [entry ''2001:db8::/32'' ''AS2'' 48, entry ''10.0.0.0/24'' ''AS1'' 24])\<rparr>"
    and "apply_slurm demo_env (slurm demo_slurm_state)
           [entry ''2001:db8::/32'' ''AS2'' 48, entry ''10.0.0.0/24'' ''AS1'' 24] =
         fst (FilterOnVRPs demo_env demo_slurm_cfg
                [entry ''2001:db8::/32'' ''AS2'' 48, entry ''10.0.0.0/24'' ''AS1'' 24])
           @ AssertVRPs demo_env demo_slurm_cfg"
    by (simp_all add: demo_slurm_state_facts(1))
  then have e2: "exported (snd (updateFromNewState demo_env t_2021 demo_slurm_state)) =
       \<lparr>Metadata = \<lparr>Counts = 2, Buildtime = ''2021-01-01T00:00:00Z''\<rparr>,
        Data = Some [entry ''2001:db8::/32'' ''AS2'' 48, entry ''10.0.0.0/24'' ''AS2'' 24]\<rparr>"
    by (simp add: demo_filter demo_slurm_state_facts(6))
  have f: "fst (updateFromNewState demo_env t_2021 ?s) = None"
    by (simp add: i)
  from f e srv e2 show ?thesis
    by (intro conjI)
qed

section \<open>updateFile: errors keep the last document\<close>

lemma note_fetch_keeps:
  "lastdata (note_fetch file code lastrefresh s) = lastdata s"
  "lasthash (note_fetch file code lastrefresh s) = lasthash s"
  "lastchange (note_fetch file code lastrefresh s) = lastchange s"
  "server (note_fetch file code lastrefresh s) = server s"
  "exported (note_fetch file code lastrefresh s) = exported s"
  "checktime (note_fetch file code lastrefresh s) = checktime s"
  "slurm (note_fetch file code lastrefresh s) = slurm s"
  by (simp_all add: note_fetch_def Let_def)

lemma updateFile_fetch_error:
  "updateFile L file now1 (data, code, lastrefresh, Some e) now2 s =
     ((False, Some e), s\<lparr>lastts := now1\<rparr>)"
  by (simp add: updateFile_def)

lemma updateFile_identical:
  "lasthash s = Some (Sum256 L data) \<Longrightarrow>
   updateFile L file now1 (data, code, lastrefresh, None) now2 s =
     ((False, Some (IdenticalFile file)), note_fetch file code lastrefresh (s\<lparr>lastts := now1\<rparr>))"
  by (simp add: updateFile_def Let_def newSHA256_def note_fetch_keeps)

lemma updateFile_decode_error:
  "lasthash s \<noteq> Some (Sum256 L data) \<Longrightarrow> snd (json_Decode L data) = Some e \<Longrightarrow>
   updateFile L file now1 (data, code, lastrefresh, None) now2 s =
     ((False, Some e), note_fetch file code lastrefresh (s\<lparr>lastts := now1\<rparr>))"
  by (cases "lasthash s")
    (auto simp: updateFile_def Let_def newSHA256_def decodeJSON_def note_fetch_keeps
      split: prod.split)

lemma updateFile_ok:
  "lasthash s \<noteq> Some (Sum256 L data) \<Longrightarrow> snd (json_Decode L data) = None \<Longrightarrow>
   updateFile L file now1 (data, code, lastrefresh, None) now2 s =
     ((True, None),
      (note_fetch file code lastrefresh (s\<lparr>lastts := now1\<rparr>))
        \<lparr>lasthash := Some (Sum256 L data), lastchange := now2,
         lastdata := fst (json_Decode L data)\<rparr>)"
  by (cases "lasthash s")
    (auto simp: updateFile_def Let_def newSHA256_def decodeJSON_def note_fetch_keeps
      split: prod.split)

text \<open>
  Claim C5. \<open>updateFile\<close> returns an error exactly when the fetch fails, or the
  SHA-256 sum of the body equals the last one (the error is then \<open>IdenticalFile\<close>), or
  the body does not decode. Whenever it returns an error it returns false, and
  \<open>lastdata\<close>, \<open>lasthash\<close> and \<open>lastchange\<close> are as they were. Without an error it
  returns true and the three fields hold the decoded document, the new sum and the
  clock reading.
\<close>

theorem updateFile_error_keeps_last_document:
  "updateFile L file now1 (data, code, lastrefresh, ferr) now2 s = ((b, err), s') \<Longrightarrow>
     (err \<noteq> None \<longrightarrow>
        \<not> b \<and> lastdata s' = lastdata s \<and> lasthash s' = lasthash s
        \<and> lastchange s' = lastchange s)
   \<and> (err = None \<longrightarrow>
        b \<and> lastdata s' = fst (json_Decode L data) \<and> lasthash s' = Some (Sum256 L data)
        \<and> lastchange s' = now2)
   \<and> (err = None) =
        (ferr = None \<and> lasthash s \<noteq> Some (Sum256 L data) \<and> snd (json_Decode L data) = None)
   \<and> (ferr \<noteq> None \<longrightarrow> err = ferr)
   \<and> (ferr = None \<and> lasthash s = Some (Sum256 L data) \<longrightarrow> err = Some (IdenticalFile file))
   \<and> (ferr = None \<and> lasthash s \<noteq> Some (Sum256 L data) \<and> snd (json_Decode L data) \<noteq> None \<longrightarrow>
        err = snd (json_Decode L data))"
proof -
  assume run: "updateFile L file now1 (data, code, lastrefresh, ferr) now2 s = ((b, err), s')"
  show ?thesis
  proof (cases ferr)
    case (Some e)
    with run show ?thesis
      by (auto simp: updateFile_fetch_error)
  next
    case None
    show ?thesis
    proof (cases "lasthash s = Some (Sum256 L data)")
      case True
      from run show ?thesis
        unfolding None updateFile_identical [OF True]
        by (auto simp: True note_fetch_keeps)
    next
      case False
      show ?thesis
      proof (cases "snd (json_Decode L data)")
        case (Some e)
        from run show ?thesis
          unfolding None updateFile_decode_error [OF False Some]
          by (auto simp: False Some note_fetch_keeps)
      next
        case dec: None
        from run show ?thesis
          unfolding None updateFile_ok [OF False dec]
          by (auto simp: False dec note_fetch_keeps)
      qed
    qed
  qed
qed

lemma demo_fetched_dedup:
  "lastdata (demo_fetched [1] now) = doc_dedup"
  "lasthash (demo_fetched [1] now) = Some [1]"
  "lastchange (demo_fetched [1] now) = now"
  "server (demo_fetched [1] now) = demo_server0"
  "exported (demo_fetched [1] now) = new_VRPList"
  "checktime (demo_fetched [1] now)"
  "slurm (demo_fetched [1] now) = None"
proof -
  have h: "lasthash demo_state \<noteq> Some (Sum256 demo_env [1])"
    and d: "snd (json_Decode demo_env [1]) = None"
    by (simp_all add: demo_state_def new_state_def demo_env_def demo_Decode_def)
  have f: "fst (json_Decode demo_env [1]) = doc_dedup" "Sum256 demo_env [1] = [1]"
    by (simp_all add: demo_env_def demo_Decode_def)
  show "lastdata (demo_fetched [1] now) = doc_dedup"
    "lasthash (demo_fetched [1] now) = Some [1]"
    "lastchange (demo_fetched [1] now) = now"
    "server (demo_fetched [1] now) = demo_server0"
    "exported (demo_fetched [1] now) = new_VRPList"
    "checktime (demo_fetched [1] now)"
    "slurm (demo_fetched [1] now) = None"
    unfolding demo_fetched_def updateFile_ok [OF h d]
    by (simp_all add: f note_fetch_keeps) (simp_all add: demo_state_def new_state_def)
qed

theorem updateFile_error_keeps_last_document_witness:
  "fst (updateFile demo_env ''f'' (t_2021 + Hour) ([1], 200, True, None) (t_2021 + Hour)
          (demo_fetched [1] t_2021)) = (False, Some (IdenticalFile ''f''))
   \<and> lastdata (snd (updateFile demo_env ''f'' (t_2021 + Hour) ([1], 200, True, None)
          (t_2021 + Hour) (demo_fetched [1] t_2021))) = doc_dedup
   \<and> lasthash (snd (updateFile demo_env ''f'' (t_2021 + Hour) ([1], 200, True, None)
          (t_2021 + Hour) (demo_fetched [1] t_2021))) = Some [1]
   \<and> lastchange (snd (updateFile demo_env ''f'' (t_2021 + Hour) ([1], 200, True, None)
          (t_2021 + Hour) (demo_fetched [1] t_2021))) = t_2021
   \<and> fst (updateFile demo_env ''f'' (t_2021 + Hour) ([3], 200, True, None) (t_2021 + Hour)
          (demo_fetched [1] t_2021)) = (True, None)
   \<and> lastdata (snd (updateFile demo_env ''f'' (t_2021 + Hour) ([3], 200, True, None)
          (t_2021 + Hour) (demo_fetched [1] t_2021))) = doc_bad_time
   \<and> lasthash (snd (updateFile demo_env ''f'' (t_2021 + Hour) ([3], 200, True, None)
          (t_2021 + Hour) (demo_fetched [1] t_2021))) = Some [3]
   \<and> lastchange (snd (updateFile demo_env ''f'' (t_2021 + Hour) ([3], 200, True, None)
          (t_2021 + Hour) (demo_fetched [1] t_2021))) = t_2021 + Hour
   \<and> fst (updateFile demo_env ''f'' (t_2021 + Hour) ([9], 200, True, None) (t_2021 + Hour)
          (demo_fetched [1] t_2021)) = (False, Some (ErrorString ''invalid character''))
   \<and> lastdata (snd (updateFile demo_env ''f'' (t_2021 + Hour) ([9], 200, True, None)
          (t_2021 + Hour) (demo_fetched [1] t_2021))) = doc_dedup
   \<and> fst (updateFile demo_env ''f'' (t_2021 + Hour)
          ([], - 1, False, Some (ErrorString ''timeout'')) (t_2021 + Hour)
          (demo_fetched [1] t_2021)) = (False, Some (ErrorString ''timeout''))
   \<and> lastdata (snd (updateFile demo_env ''f'' (t_2021 + Hour)
          ([], - 1, False, Some (ErrorString ''timeout'')) (t_2021 + Hour)
          (demo_fetched [1] t_2021))) = doc_dedup"
proof -
  let ?s = "demo_fetched [1] t_2021"
  let ?r = "\<lambda>f. updateFile demo_env ''f'' (t_2021 + Hour) f (t_2021 + Hour) ?s"
  have h: "lasthash ?s = Some (Sum256 demo_env [1])"
    by (simp add: demo_fetched_dedup) (simp add: demo_env_def)
  have h3: "lasthash ?s \<noteq> Some (Sum256 demo_env [3])"
    and h9: "lasthash ?s \<noteq> Some (Sum256 demo_env [9])"
    by (simp_all add: demo_fetched_dedup) (simp_all add: demo_env_def)
  have d3: "snd (json_Decode demo_env [3]) = None"
    and d9: "snd (json_Decode demo_env [9]) = Some (ErrorString ''invalid character'')"
    and v3: "fst (json_Decode demo_env [3]) = doc_bad_time" "Sum256 demo_env [3] = [3]"
    by (simp_all add: demo_env_def demo_Decode_def)
  have e1: "fst (?r ([1], 200, True, None)) = (False, Some (IdenticalFile ''f''))"
    by (simp add: updateFile_identical [OF h])
  have e3: "fst (?r ([3], 200, True, None)) = (True, None)"
    by (simp add: updateFile_ok [OF h3 d3])
  have e9: "fst (?r ([9], 200, True, None)) = (False, Some (ErrorString ''invalid character''))"
    by (simp add: updateFile_decode_error [OF h9 d9])
  have e0: "fst (?r ([], - 1, False, Some (ErrorString ''timeout''))) =
              (False, Some (ErrorString ''timeout''))"
    by (simp add: updateFile_fetch_error)
  have r1: "?r ([1], 200, True, None) = ((False, Some (IdenticalFile ''f'')), snd (?r ([1], 200, True, None)))"
    and r3: "?r ([3], 200, True, None) = ((True, None), snd (?r ([3], 200, True, None)))"
    and r9: "?r ([9], 200, True, None) =
               ((False, Some (ErrorString ''invalid character'')), snd (?r ([9], 200, True, None)))"
    and r0: "?r ([], - 1, False, Some (ErrorString ''timeout'')) =
               ((False, Some (ErrorString ''timeout'')),
                snd (?r ([], - 1, False, Some (ErrorString ''timeout''))))"
    using e1 e3 e9 e0 by (simp_all add: prod_eq_iff)
  from updateFile_error_keeps_last_document [OF r1]
  have k1: "lastdata (snd (?r ([1], 200, True, None))) = lastdata ?s"
    "lasthash (snd (?r ([1], 200, True, None))) = lasthash ?s"
    "lastchange (snd (?r ([1], 200, True, None))) = lastchange ?s"
    by simp_all
  from updateFile_error_keeps_last_document [OF r3]
  have k3: "lastdata (snd (?r ([3], 200, True, None))) = fst (json_Decode demo_env [3])"
    "lasthash (snd (?r ([3], 200, True, None))) = Some (Sum256 demo_env [3])"
    "lastchange (snd (?r ([3], 200, True, None))) = t_2021 + Hour"
    by simp_all
  from updateFile_error_keeps_last_document [OF r9]
  have k9: "lastdata (snd (?r ([9], 200, True, None))) = lastdata ?s"
    by simp
  from updateFile_error_keeps_last_document [OF r0]
  have k0: "lastdata (snd (?r ([], - 1, False, Some (ErrorString ''timeout'')))) = lastdata ?s"
    by simp
  show ?thesis
    unfolding e1 e3 e9 e0 k1 k3 k9 k0
    by (simp add: demo_fetched_dedup v3)
qed

section \<open>The wait of the refresh loop\<close>

lemma int64_mul_exact:
  "- (2 ^ 63) \<le> a * b \<Longrightarrow> a * b < 2 ^ 63 \<Longrightarrow> int64_mul a b = a * b"
proof -
  assume lo: "- (2 ^ 63) \<le> a * b" and hi: "a * b < 2 ^ 63"
  have "int64_mul a b = sint (word_of_int (a * b) :: 64 word)"
    by (simp only: int64_mul_def wi_hom_mult)
  also have "\<dots> = signed_take_bit 63 (a * b)"
    by (simp only: sint_sbintrunc') simp
  also have "\<dots> = a * b"
    using lo hi by (rule signed_take_bit_int_eq_self)
  finally show ?thesis .
qed

lemma int64_mul_seconds:
  assumes "- 9223372036 \<le> interval" "interval \<le> 9223372036"
  shows "int64_mul interval Second = interval * Second"
proof -
  from assms have "- (2 ^ 63) \<le> interval * Second" "interval * Second < 2 ^ 63"
    by (simp_all add: Second_def)
  then show ?thesis by (rule int64_mul_exact)
qed

text \<open>With \<open>-refresh 18446744074\<close> the product wraps to 0.29 seconds.\<close>

lemma int64_mul_wraps: "int64_mul 18446744074 Second = 290448384"
  by (simp add: int64_mul_def Second_def)

lemma updateSlurm_keeps:
  "lastchange (snd (updateSlurm L file fetch s)) = lastchange s"
  "lastdata (snd (updateSlurm L file fetch s)) = lastdata s"
  "lasthash (snd (updateSlurm L file fetch s)) = lasthash s"
  "server (snd (updateSlurm L file fetch s)) = server s"
  "exported (snd (updateSlurm L file fetch s)) = exported s"
  by (simp_all add: updateSlurm_def Let_def note_fetch_keeps
      split: prod.split option.split sum.split)

lemma updateFile_lastchange:
  "lastchange (snd (updateFile L file now1 fetch now2 s)) =
     (if fst (fst (updateFile L file now1 fetch now2 s)) then now2 else lastchange s)"
  by (simp add: updateFile_def Let_def note_fetch_keeps split: prod.split option.split)

lemma routine_pass_lastchange:
  assumes "routine_pass L file interval slurmFile tk s = (p, s1)"
  shows "delay p = routine_delay s interval"
    and "lastchange s1 = (if cacheUpdated p then changeNow tk else lastchange s)"
proof -
  let ?s1 = "if slurmFile \<noteq> [] then snd (updateSlurm L slurmFile (slurmFetch tk) s) else s"
  let ?u = "updateFile L file (fileNow tk) (fileFetch tk) (changeNow tk) ?s1"
  have c1: "lastchange ?s1 = lastchange s"
    by (simp add: updateSlurm_keeps)
  from assms have p: "delay p = routine_delay s interval" "cacheUpdated p = fst (fst ?u)"
    by (auto simp: routine_pass_def Let_def split: prod.splits if_splits)
  from assms have "lastchange s1 = lastchange (snd ?u)"
    by (auto simp: routine_pass_def Let_def updateFromNewState_keeps [THEN arg_cong]
        split: prod.splits if_splits
        dest: arg_cong [where f = "\<lambda>r. lastchange (snd r)"])
  then show "lastchange s1 = (if cacheUpdated p then changeNow tk else lastchange s)"
    by (simp add: p updateFile_lastchange c1 del: if_cancel)
  show "delay p = routine_delay s interval" by (rule p)
qed

lemma routineUpdate_delays:
  "routineUpdate L file interval slurmFile tks s = (ps, s') \<Longrightarrow>
   \<forall>tk \<in> set tks. changeNow tk \<noteq> 0 \<Longrightarrow>
     length ps = length tks
   \<and> (\<forall>i < length ps.
         delay (ps ! i) =
           (if IsZero (lastchange s) \<and> (\<forall>j < i. \<not> cacheUpdated (ps ! j))
            then 30 * Second else int64_mul interval Second))"
proof (induction tks arbitrary: s ps s')
  case Nil
  then show ?case by simp
next
  case (Cons tk tks)
  obtain p s1 where pass: "routine_pass L file interval slurmFile tk s = (p, s1)"
    by (cases "routine_pass L file interval slurmFile tk s")
  obtain ps1 s2 where rest: "routineUpdate L file interval slurmFile tks s1 = (ps1, s2)"
    by (cases "routineUpdate L file interval slurmFile tks s1")
  from Cons.prems(1) pass rest have ps: "ps = p # ps1"
    by simp
  from Cons.prems(2) have now: "changeNow tk \<noteq> 0" and nows: "\<forall>tk \<in> set tks. changeNow tk \<noteq> 0"
    by simp_all
  note IH = Cons.IH [OF rest nows]
  note lc = routine_pass_lastchange [OF pass]
  have z: "IsZero (lastchange s1) = (IsZero (lastchange s) \<and> \<not> cacheUpdated p)"
    using now by (auto simp: lc IsZero_def)
  have step: "delay ((p # ps1) ! i) =
           (if IsZero (lastchange s) \<and> (\<forall>j < i. \<not> cacheUpdated ((p # ps1) ! j))
            then 30 * Second else int64_mul interval Second)"
    if i: "i < length (p # ps1)" for i
  proof (cases i)
    case 0
    then show ?thesis by (simp add: lc routine_delay_def)
  next
    case (Suc k)
    with i have k: "k < length ps1" by simp
    have all: "(\<forall>j < Suc k. \<not> cacheUpdated ((p # ps1) ! j)) =
                 (\<not> cacheUpdated p \<and> (\<forall>j < k. \<not> cacheUpdated (ps1 ! j)))"
      by (auto simp: less_Suc_eq_0_disj)
    from IH k have "delay (ps1 ! k) =
           (if IsZero (lastchange s1) \<and> (\<forall>j < k. \<not> cacheUpdated (ps1 ! j))
            then 30 * Second else int64_mul interval Second)"
      by blast
    then show ?thesis
      unfolding Suc all z by auto
  qed
  from IH step show ?case
    unfolding ps by simp
qed

lemma run_sync_lastchange:
  "lastchange (run_sync L slurmFile tk s) =
     (if fst (fst (updateFile L (CacheBin L) (fileNow tk) (fileFetch tk) (changeNow tk) s))
      then changeNow tk else lastchange s)"
  by (simp add: run_sync_def Let_def case_prod_beta updateFromNewState_keeps updateSlurm_keeps
      updateFile_lastchange)

lemma tick_of_simps:
  "slurmFetch (tick_of d now) = ([], - 1, False, Some (ErrorString ''no SLURM file''))"
  "fileNow (tick_of d now) = now"
  "fileFetch (tick_of d now) = (d, 200, True, None)"
  "changeNow (tick_of d now) = now"
  "stateNow (tick_of d now) = now"
  by (simp_all add: tick_of_def)

text \<open>
  Claim C6, as stated, fails when a document was fetched and decoded but not
  installed: the first synchronisation fetches a document that is 25 hours old, with
  \<open>checktime\<close> on, so nothing is added to the server; the loop then waits the
  configured 600 seconds, not 30, and after its first pass (a fetch of the same body)
  the server still has no VRP set.
\<close>

theorem wait_is_interval_before_any_install:
  "passes (run demo_env demo_flags ''stayrtr'' [] ''StayRTR'' demo_server0
             (tick_of [1] (t_2021 + 25 * Hour)) [tick_of [1] (t_2021 + 26 * Hour)]) =
     [\<lparr>delay = 600 * Second, cacheUpdated = False, slurmNotPresentOrUpdated = False,
       stateError = None\<rparr>]
   \<and> 600 * Second \<noteq> 30 * Second
   \<and> installed (server (final (run demo_env demo_flags ''stayrtr'' [] ''StayRTR'' demo_server0
        (tick_of [1] (t_2021 + 25 * Hour)) [tick_of [1] (t_2021 + 26 * Hour)]))) = []"
proof -
  let ?now = "t_2021 + 25 * Hour"
  let ?s0 = "demo_fetched [1] ?now"
  have new: "new_state demo_server0 (Some ()) True True = demo_state"
    by (simp add: demo_state_def)
  have chk: "check_buildtime demo_env ?now ?s0 =
               Some (ErrorString ''VRP JSON file is older than 24 hours'')"
    by (simp add: check_buildtime_def demo_fetched_dedup)
      (simp add: demo_env_def demo_Parse_def doc_dedup_def Hour_def)
  have d: "Data (lastdata ?s0) =
             Some [entry ''10.0.0.0/24'' ''AS1'' 24, entry ''10.0.0.0/24'' ''AS1'' 24,
                   entry ''10.0.0.0/24'' ''AS1'' 25]"
    by (simp add: demo_fetched_dedup doc_dedup_def)
  have sync: "run_sync demo_env [] (tick_of [1] ?now) demo_state = ?s0"
    by (simp add: run_sync_def case_prod_beta tick_of_simps
        updateFromNewState_rejected [OF d chk] flip: demo_fetched_def)
  have h: "lasthash ?s0 = Some (Sum256 demo_env [1])"
    by (simp add: demo_fetched_dedup) (simp add: demo_env_def)
  have z: "\<not> IsZero (lastchange ?s0)"
    by (simp add: demo_fetched_dedup IsZero_def t_2021_def Second_def Hour_def)
  have pass: "routine_pass demo_env (CacheBin demo_env) 600 [] (tick_of [1] (t_2021 + 26 * Hour)) ?s0 =
          (\<lparr>delay = 600 * Second, cacheUpdated = False, slurmNotPresentOrUpdated = False,
            stateError = None\<rparr>,
           note_fetch (CacheBin demo_env) 200 True (?s0\<lparr>lastts := t_2021 + 26 * Hour\<rparr>))"
    by (simp add: routine_pass_def routine_delay_def z tick_of_simps updateFile_identical [OF h]
        int64_mul_seconds)
  have run: "run demo_env demo_flags ''stayrtr'' [] ''StayRTR'' demo_server0
               (tick_of [1] ?now) [tick_of [1] (t_2021 + 26 * Hour)] =
             Looping [\<lparr>delay = 600 * Second, cacheUpdated = False,
                        slurmNotPresentOrUpdated = False, stateError = None\<rparr>]
               (note_fetch (CacheBin demo_env) 200 True (?s0\<lparr>lastts := t_2021 + 26 * Hour\<rparr>))"
    by (simp add: run_def run_args_def demo_flags_def new sync pass)
  show ?thesis
    unfolding run
    by (simp add: note_fetch_keeps demo_fetched_dedup Second_def) (simp add: demo_server0_def)
qed

text \<open>
  Claim C6, amended. In every pass of the loop of \<open>routineUpdate\<close> the wait is 30
  seconds as long as \<open>lastchange\<close> is the zero time, that is, as long as no call of
  \<open>updateFile\<close>, in the first synchronisation or in an earlier pass, has fetched and
  decoded a document; after one has, the wait is the 64-bit product of the configured
  refresh interval and one second, whether or not the document was installed. For an
  interval of at most 9223372036 seconds in absolute value that product is the
  configured interval. (The clock never reads the zero time.)
\<close>

theorem wait_is_30_seconds_until_first_decoded_document:
  "run L F prog args AppVersion srv tk0 tks = Looping ps s' \<Longrightarrow>
   changeNow tk0 \<noteq> 0 \<Longrightarrow> \<forall>tk \<in> set tks. changeNow tk \<noteq> 0 \<Longrightarrow>
     length ps = length tks
   \<and> (\<forall>i < length ps.
         delay (ps ! i) =
           (if \<not> first_sync_ok L F srv tk0 \<and> (\<forall>j < i. \<not> cacheUpdated (ps ! j))
            then 30 * Second else int64_mul (RefreshInterval F) Second))
   \<and> (- 9223372036 \<le> RefreshInterval F \<and> RefreshInterval F \<le> 9223372036 \<longrightarrow>
        int64_mul (RefreshInterval F) Second = RefreshInterval F * Second)"
proof -
  assume run: "run L F prog args AppVersion srv tk0 tks = Looping ps s'"
    and now0: "changeNow tk0 \<noteq> 0" and nows: "\<forall>tk \<in> set tks. changeNow tk \<noteq> 0"
  let ?s = "new_state srv (if MetricsAddr F \<noteq> [] then Some () else None)
              (SendNotifs F) (TimeCheck F) :: ('a, 'b) state"
  let ?s1 = "run_sync L (Slurm F) tk0 ?s"
  let ?slurmFile = "if Slurm F \<noteq> [] \<and> \<not> SlurmRefresh F then [] else Slurm F"
  from run have loop: "routineUpdate L (CacheBin L) (RefreshInterval F) ?slurmFile tks ?s1 = (ps, s')"
    by (auto simp: run_def Let_def split: option.splits prod.splits if_splits)
  have z: "IsZero (lastchange ?s1) = (\<not> first_sync_ok L F srv tk0)"
    using now0
    by (simp add: run_sync_lastchange first_sync_ok_def IsZero_def) (simp add: new_state_def)
  from routineUpdate_delays [OF loop nows] have "length ps = length tks
   \<and> (\<forall>i < length ps.
         delay (ps ! i) =
           (if \<not> first_sync_ok L F srv tk0 \<and> (\<forall>j < i. \<not> cacheUpdated (ps ! j))
            then 30 * Second else int64_mul (RefreshInterval F) Second))"
    unfolding z .
  then show ?thesis
    by (simp add: int64_mul_seconds)
qed

lemma tick_failing_simps:
  "slurmFetch (tick_failing now) = ([], - 1, False, Some (ErrorString ''no SLURM file''))"
  "fileNow (tick_failing now) = now"
  "fileFetch (tick_failing now) = ([], - 1, False, Some (ErrorString ''timeout''))"
  "changeNow (tick_failing now) = now"
  "stateNow (tick_failing now) = now"
  by (simp_all add: tick_failing_def)

lemma demo_run_passes:
  "run demo_env demo_flags ''stayrtr'' [] ''StayRTR'' demo_server0 (tick_failing t_2021)
     [tick_failing (t_2021 + Hour), tick_of [1] (t_2021 + 2 * Hour),
      tick_of [1] (t_2021 + 3 * Hour)] =
   Looping
     (passes (run demo_env demo_flags ''stayrtr'' [] ''StayRTR'' demo_server0
        (tick_failing t_2021)
        [tick_failing (t_2021 + Hour), tick_of [1] (t_2021 + 2 * Hour),
         tick_of [1] (t_2021 + 3 * Hour)]))
     (final (run demo_env demo_flags ''stayrtr'' [] ''StayRTR'' demo_server0
        (tick_failing t_2021)
        [tick_failing (t_2021 + Hour), tick_of [1] (t_2021 + 2 * Hour),
         tick_of [1] (t_2021 + 3 * Hour)]))"
  by (simp add: run_def run_args_def demo_flags_def case_prod_beta Let_def)

lemma demo_first_sync_fails:
  "\<not> first_sync_ok demo_env demo_flags demo_server0 (tick_failing t_2021)"
  by (simp add: first_sync_ok_def tick_failing_simps updateFile_fetch_error)

lemma demo_run_flags:
  "map cacheUpdated
     (passes (run demo_env demo_flags ''stayrtr'' [] ''StayRTR'' demo_server0
        (tick_failing t_2021)
        [tick_failing (t_2021 + Hour), tick_of [1] (t_2021 + 2 * Hour),
         tick_of [1] (t_2021 + 3 * Hour)])) = [False, True, False]"
proof -
  have new: "new_state demo_server0 (Some ()) True True = demo_state"
    by (simp add: demo_state_def)
  have h0: "lasthash (demo_state\<lparr>lastts := a, lastts := b\<rparr>) \<noteq> Some (Sum256 demo_env [1])"
    for a b
    by (simp add: demo_state_def new_state_def)
  have dec: "snd (json_Decode demo_env [1]) = None"
    by (simp add: demo_env_def demo_Decode_def)
  show ?thesis
    by (simp add: run_def run_args_def demo_flags_def case_prod_beta Let_def new
        run_sync_def routine_pass_def tick_failing_simps tick_of_simps
        updateFile_fetch_error updateFile_ok [OF h0 dec] updateFromNewState_keeps
        updateFile_identical updateFromNewState_no_data)
      (simp add: demo_state_def new_state_def new_VRPList_def updateFile_fetch_error
        updateFile_ok demo_env_def demo_Decode_def updateFromNewState_keeps
        updateFile_identical note_fetch_keeps)
qed

theorem wait_is_30_seconds_until_first_decoded_document_witness:
  "delay (passes (run demo_env demo_flags ''stayrtr'' [] ''StayRTR'' demo_server0
        (tick_failing t_2021)
        [tick_failing (t_2021 + Hour), tick_of [1] (t_2021 + 2 * Hour),
         tick_of [1] (t_2021 + 3 * Hour)]) ! 0) = 30 * Second
   \<and> delay (passes (run demo_env demo_flags ''stayrtr'' [] ''StayRTR'' demo_server0
        (tick_failing t_2021)
        [tick_failing (t_2021 + Hour), tick_of [1] (t_2021 + 2 * Hour),
         tick_of [1] (t_2021 + 3 * Hour)]) ! 1) = 30 * Second
   \<and> delay (passes (run demo_env demo_flags ''stayrtr'' [] ''StayRTR'' demo_server0
        (tick_failing t_2021)
        [tick_failing (t_2021 + Hour), tick_of [1] (t_2021 + 2 * Hour),
         tick_of [1] (t_2021 + 3 * Hour)]) ! 2) = 600 * Second
   \<and> map cacheUpdated
     (passes (run demo_env demo_flags ''stayrtr'' [] ''StayRTR'' demo_server0
        (tick_failing t_2021)
        [tick_failing (t_2021 + Hour), tick_of [1] (t_2021 + 2 * Hour),
         tick_of [1] (t_2021 + 3 * Hour)])) = [False, True, False]"
proof -
  let ?ps = "passes (run demo_env demo_flags ''stayrtr'' [] ''StayRTR'' demo_server0
        (tick_failing t_2021)
        [tick_failing (t_2021 + Hour), tick_of [1] (t_2021 + 2 * Hour),
         tick_of [1] (t_2021 + 3 * Hour)])"
  have t0: "changeNow (tick_failing t_2021) \<noteq> 0"
    by (simp add: tick_failing_simps t_2021_def Second_def)
  have ts: "\<forall>tk \<in> set [tick_failing (t_2021 + Hour), tick_of [1] (t_2021 + 2 * Hour),
              tick_of [1] (t_2021 + 3 * Hour)]. changeNow tk \<noteq> 0"
    by (simp add: tick_failing_simps tick_of_simps t_2021_def Second_def Hour_def)
  note w = wait_is_30_seconds_until_first_decoded_document [OF demo_run_passes t0 ts]
  from w have len: "length ?ps = 3" by simp
  from w have dd: "delay (?ps ! i) =
           (if \<not> first_sync_ok demo_env demo_flags demo_server0 (tick_failing t_2021)
               \<and> (\<forall>j < i. \<not> cacheUpdated (?ps ! j))
            then 30 * Second else int64_mul (RefreshInterval demo_flags) Second)"
    if "i < length ?ps" for i
    using that by blast
  have r: "RefreshInterval demo_flags = 600"
    by (simp add: demo_flags_def)
  from w have r600: "int64_mul (RefreshInterval demo_flags) Second = 600 * Second"
    by (simp add: r)
  have c: "cacheUpdated (?ps ! 0) = False" "cacheUpdated (?ps ! 1) = True"
    using demo_run_flags len
    by (simp_all add: list_eq_iff_nth_eq)
  have a1: "\<forall>j < 1. \<not> cacheUpdated (?ps ! j)"
    using c(1) by simp
  have a2: "\<not> (\<forall>j < 2. \<not> cacheUpdated (?ps ! j))"
    using c(2) by (auto intro: exI [of _ 1])
  have "delay (?ps ! 0) = 30 * Second"
    using dd [of 0] len demo_first_sync_fails by simp
  moreover have "delay (?ps ! 1) = 30 * Second"
    using dd [of 1] len demo_first_sync_fails a1 by simp
  moreover have "delay (?ps ! 2) = 600 * Second"
    using dd [of 2] len a2 r600 by simp
  ultimately show ?thesis
    using demo_run_flags by simp
qed

end
